theory Spec2Isabelle
  imports Complex_Main "HOL-Library.Multiset" "HOL-Library.Sublist"
begin

section \<open>Cucina: unit conversion, inventory deduction and cooking sessions\<close>

text \<open>
  A shallow embedding of \<^verbatim>\<open>src/lib/conversions.ts\<close> (the conversion and deduction
  engine), of the seed table \<^verbatim>\<open>defaultMeasurements\<close> of the storage module and of the
  cooking-session handlers of \<^verbatim>\<open>App\<close>.

  Conventions of the embedding:
  \<^item> a TypeScript \<^verbatim>\<open>number\<close> that holds a quantity, a factor or a serving size is a
    \<^typ>\<open>real\<close>: arithmetic is exact, and the non-finite values of IEEE doubles
    (\<^verbatim>\<open>NaN\<close>, \<^verbatim>\<open>Infinity\<close>) have no counterpart; counters are \<^typ>\<open>nat\<close>;
  \<^item> \<^verbatim>\<open>number | null\<close> is \<^typ>\<open>real option\<close>, \<^verbatim>\<open>string | null\<close> is
    \<^typ>\<open>string option\<close>, and \<^verbatim>\<open>Array.prototype.find\<close> is \<^const>\<open>find\<close>;
  \<^item> an interface is a record; fields that several interfaces share (\<^verbatim>\<open>id\<close>,
    \<^verbatim>\<open>userId\<close>, \<^verbatim>\<open>quantity\<close>, ...) carry a prefix outside \<open>InventoryItem\<close>.
\<close>

subsection \<open>Data model\<close>

record MeasurementConversion =
  toMeasurementId :: string
  factor :: real

record Measurement =
  m_id :: string
  m_name :: string
  conversions :: "MeasurementConversion list"

record InventoryItem =
  userId :: string
  ingredientId :: string
  quantity :: real
  measurementId :: string

subsection \<open>Conversion engine\<close>

text \<open>\<^verbatim>\<open>convertMeasurement\<close>: \<open>None\<close> is the \<^verbatim>\<open>null\<close> of "no conversion path".\<close>

definition convertMeasurement ::
  "string \<Rightarrow> string \<Rightarrow> real \<Rightarrow> Measurement list \<Rightarrow> real option" where
  "convertMeasurement fromMeasurementId toId qty measurements =
     (if fromMeasurementId = toId then Some qty
      else case find (\<lambda>m. m_id m = fromMeasurementId) measurements of
             None \<Rightarrow> None
           | Some fromMeasurement \<Rightarrow>
               (case find (\<lambda>c. toMeasurementId c = toId) (conversions fromMeasurement) of
                  Some directConversion \<Rightarrow> Some (qty * factor directConversion)
                | None \<Rightarrow> None))"

text \<open>
  \<^verbatim>\<open>getTotalInventoryInUnit\<close>: the \<^verbatim>\<open>for\<close> loop over the filtered lots, with the
  running \<^verbatim>\<open>total\<close> as accumulator.
\<close>

fun totalLoop :: "string \<Rightarrow> Measurement list \<Rightarrow> InventoryItem list \<Rightarrow> real \<Rightarrow> real" where
  "totalLoop targetMeasurementId measurements [] tot = tot"
| "totalLoop targetMeasurementId measurements (item # rest) tot =
     (case convertMeasurement (measurementId item) targetMeasurementId (quantity item) measurements of
        Some converted \<Rightarrow> totalLoop targetMeasurementId measurements rest (tot + converted)
      | None \<Rightarrow> totalLoop targetMeasurementId measurements rest tot)"

definition getTotalInventoryInUnit ::
  "string \<Rightarrow> string \<Rightarrow> InventoryItem list \<Rightarrow> Measurement list \<Rightarrow> real" where
  "getTotalInventoryInUnit ingId targetMeasurementId inventory measurements =
     totalLoop targetMeasurementId measurements
       (filter (\<lambda>item. ingredientId item = ingId) inventory) 0"

record Sufficiency =
  hasEnough :: bool
  available :: real

definition hasEnoughInventory ::
  "string \<Rightarrow> string \<Rightarrow> real \<Rightarrow> InventoryItem list \<Rightarrow> Measurement list \<Rightarrow> Sufficiency" where
  "hasEnoughInventory ingId requiredMeasurementId requiredQuantity inventory measurements =
     (let totalAvailable =
            getTotalInventoryInUnit ingId requiredMeasurementId inventory measurements
      in \<lparr>hasEnough = (totalAvailable \<ge> requiredQuantity), available = totalAvailable\<rparr>)"

subsection \<open>The seed measurement table\<close>

definition conv :: "string \<Rightarrow> real \<Rightarrow> MeasurementConversion" where
  "conv t f = \<lparr>toMeasurementId = t, factor = f\<rparr>"

definition meas :: "string \<Rightarrow> string \<Rightarrow> MeasurementConversion list \<Rightarrow> Measurement" where
  "meas i n cs = \<lparr>m_id = i, m_name = n, conversions = cs\<rparr>"

definition defaultMeasurements :: "Measurement list" where
  "defaultMeasurements =
   [meas ''1'' ''cup''
      [conv ''2'' 16, conv ''3'' 48, conv ''4'' 8, conv ''5'' 0.5, conv ''6'' 0.25,
       conv ''7'' 0.0625, conv ''8'' 0.236588, conv ''9'' 236.588],
    meas ''2'' ''tablespoon''
      [conv ''1'' 0.0625, conv ''3'' 3, conv ''4'' 0.5, conv ''5'' 0.03125,
       conv ''6'' 0.015625, conv ''7'' 0.00390625, conv ''8'' 0.0147868, conv ''9'' 14.7868],
    meas ''3'' ''teaspoon''
      [conv ''1'' 0.0208333, conv ''2'' 0.333333, conv ''4'' 0.166667, conv ''5'' 0.0104167,
       conv ''6'' 0.00520833, conv ''7'' 0.00130208, conv ''8'' 0.00492892, conv ''9'' 4.92892],
    meas ''4'' ''fluid ounce''
      [conv ''1'' 0.125, conv ''2'' 2, conv ''3'' 6, conv ''5'' 0.0625, conv ''6'' 0.03125,
       conv ''7'' 0.0078125, conv ''8'' 0.0295735, conv ''9'' 29.5735],
    meas ''5'' ''pint''
      [conv ''1'' 2, conv ''2'' 32, conv ''3'' 96, conv ''4'' 16, conv ''6'' 0.5,
       conv ''7'' 0.125, conv ''8'' 0.473176, conv ''9'' 473.176],
    meas ''6'' ''quart''
      [conv ''1'' 4, conv ''2'' 64, conv ''3'' 192, conv ''4'' 32, conv ''5'' 2,
       conv ''7'' 0.25, conv ''8'' 0.946353, conv ''9'' 946.353],
    meas ''7'' ''gallon''
      [conv ''1'' 16, conv ''2'' 256, conv ''3'' 768, conv ''4'' 128, conv ''5'' 8,
       conv ''6'' 4, conv ''8'' 3.78541, conv ''9'' 3785.41],
    meas ''8'' ''liter''
      [conv ''9'' 1000, conv ''1'' 4.22675, conv ''2'' 67.628, conv ''3'' 202.884,
       conv ''4'' 33.814, conv ''5'' 2.11338, conv ''6'' 1.05669, conv ''7'' 0.264172],
    meas ''9'' ''milliliter''
      [conv ''8'' 0.001, conv ''1'' 0.00422675, conv ''2'' 0.067628, conv ''3'' 0.202884,
       conv ''4'' 0.033814, conv ''5'' 0.00211338, conv ''6'' 0.00105669,
       conv ''7'' 0.000264172],
    meas ''10'' ''ounce''
      [conv ''12'' 0.0625, conv ''11'' 28.3495, conv ''13'' 0.0283495, conv ''14'' 28349.5],
    meas ''12'' ''pound''
      [conv ''10'' 16, conv ''11'' 453.592, conv ''13'' 0.453592, conv ''14'' 453592],
    meas ''14'' ''milligram''
      [conv ''11'' 0.001, conv ''13'' 0.000001, conv ''10'' 0.000035274,
       conv ''12'' 0.0000022046],
    meas ''11'' ''gram''
      [conv ''14'' 1000, conv ''13'' 0.001, conv ''10'' 0.035274, conv ''12'' 0.00220462],
    meas ''13'' ''kilogram''
      [conv ''14'' 1000000, conv ''11'' 1000, conv ''10'' 35.274, conv ''12'' 2.20462],
    meas ''15'' ''piece'' [], meas ''16'' ''slice'' [], meas ''17'' ''clove'' [],
    meas ''18'' ''bunch'' [], meas ''19'' ''can'' [], meas ''20'' ''package'' [],
    meas ''21'' ''handful'' [], meas ''22'' ''pinch'' [], meas ''23'' ''dash'' [],
    meas ''24'' ''sprig'' [], meas ''25'' ''leaf'' []]"

subsection \<open>Inventory deduction engine\<close>

text \<open>
  \<^verbatim>\<open>relevantItems\<close>: every lot is paired with its position in the inventory array, and
  the pairs of the given user and ingredient are kept (\<^verbatim>\<open>{ item, index }\<close> is the pair
  \<open>(item, index)\<close>).
\<close>

definition relevantItems ::
  "string \<Rightarrow> InventoryItem list \<Rightarrow> string \<Rightarrow> (InventoryItem \<times> nat) list" where
  "relevantItems ingId inventory uid =
     filter (\<lambda>(item, index). userId item = uid \<and> ingredientId item = ingId)
       (zip inventory [0..<length inventory])"

text \<open>The comparison function handed to \<^verbatim>\<open>sort\<close>, with its three \<^verbatim>\<open>return\<close>s.\<close>

definition compareItems ::
  "string \<Rightarrow> InventoryItem \<times> nat \<Rightarrow> InventoryItem \<times> nat \<Rightarrow> int" where
  "compareItems requiredMeasurementId a b =
     (if measurementId (fst a) = requiredMeasurementId then - 1
      else if measurementId (fst b) = requiredMeasurementId then 1
      else 0)"

text \<open>
  \<^verbatim>\<open>Array.prototype.sort\<close> belongs to the JavaScript engine, not to the repository.
  ECMAScript fixes its result (the stable sort) only for a comparison function that is
  consistent on the array; \<^const>\<open>compareItems\<close> is not consistent as soon as two lots
  carry the required unit (it answers \<open>- 1\<close> in both directions), and then the result
  is the engine's.

  The model follows V8 (Chrome, Node), which sorts an array of fewer than 64 elements by
  insertion: it takes the run at the start of the array, comparing each element with
  its predecessor as \<open>cmp later earlier\<close> and reversing the run when these answers are
  negative, and then inserts every further element, the pivot, by a binary search that
  compares \<open>cmp pivot y\<close> with elements \<open>y\<close> already placed and goes left when the
  answer is negative. The function below scans the placed elements from the last one
  and moves the pivot in front of those for which \<open>cmp pivot y\<close> is negative. On
  \<^const>\<open>compareItems\<close> the two agree: the answer is negative for every \<open>y\<close> when the
  pivot has the required unit, so the pivot goes to the front, and it is never negative
  when the pivot has another unit, so the pivot stays last. For a consistent comparison
  function the result is the stable sort, as in every engine; that is the case on every
  inventory with the key of the data model, where at most one of the lots compared has
  the required unit.

  \<open>insertPivot\<close> receives the elements already placed with the last one first.
\<close>

fun insertPivot :: "('a \<Rightarrow> 'a \<Rightarrow> int) \<Rightarrow> 'a \<Rightarrow> 'a list \<Rightarrow> 'a list" where
  "insertPivot cmp pivot [] = [pivot]"
| "insertPivot cmp pivot (y # placed) =
     (if cmp pivot y < 0 then y # insertPivot cmp pivot placed else pivot # y # placed)"

definition sortArray :: "('a \<Rightarrow> 'a \<Rightarrow> int) \<Rightarrow> 'a list \<Rightarrow> 'a list" where
  "sortArray cmp xs = rev (foldl (\<lambda>placed pivot. insertPivot cmp pivot placed) [] xs)"

definition sortedItems ::
  "string \<Rightarrow> string \<Rightarrow> InventoryItem list \<Rightarrow> string \<Rightarrow> (InventoryItem \<times> nat) list" where
  "sortedItems ingId requiredMeasurementId inventory uid =
     sortArray (compareItems requiredMeasurementId) (relevantItems ingId inventory uid)"

record Deduction =
  d_measurementId :: string
  d_quantity :: real

text \<open>
  The three variables that the \<^verbatim>\<open>for\<close> loop of \<^verbatim>\<open>deductFromInventory\<close> changes.
  \<open>updatedInventory\<close> is the working array, in which a depleted lot is marked by the
  quantity \<open>- 1\<close> until the final \<^verbatim>\<open>filter\<close>.
\<close>

record DeductState =
  updatedInventory :: "InventoryItem list"
  deducted :: "Deduction list"
  remainingToDeduct :: real

text \<open>
  One pass through the loop body from \<^verbatim>\<open>Math.min\<close> on, for a lot whose unit the
  remaining amount converts into (\<open>amountInItemUnit\<close>). \<open>item\<close> is the lot as it
  was when \<^verbatim>\<open>relevantItems\<close> was built.
\<close>

definition deductStep ::
  "string \<Rightarrow> Measurement list \<Rightarrow> InventoryItem \<Rightarrow> nat \<Rightarrow> real \<Rightarrow> DeductState \<Rightarrow> DeductState" where
  "deductStep requiredMeasurementId measurements item index amountInItemUnit s =
     (let toDeduct = min (quantity item) amountInItemUnit;
          newQuantity = quantity item - toDeduct
      in \<lparr>updatedInventory =
            (if newQuantity > 0.001
             then (updatedInventory s)[index := item\<lparr>quantity := newQuantity\<rparr>]
             else (updatedInventory s)[index := item\<lparr>quantity := - 1\<rparr>]),
          deducted =
            deducted s @ [\<lparr>d_measurementId = measurementId item, d_quantity = toDeduct\<rparr>],
          remainingToDeduct =
            (case convertMeasurement (measurementId item) requiredMeasurementId toDeduct
                    measurements of
               Some deductedInRequiredUnit \<Rightarrow> remainingToDeduct s - deductedInRequiredUnit
             | None \<Rightarrow> remainingToDeduct s)\<rparr>)"

text \<open>The loop: \<^verbatim>\<open>break\<close> ends it, \<^verbatim>\<open>continue\<close> goes on with the state unchanged.\<close>

fun deductLoop ::
  "string \<Rightarrow> Measurement list \<Rightarrow> (InventoryItem \<times> nat) list \<Rightarrow> DeductState \<Rightarrow> DeductState" where
  "deductLoop requiredMeasurementId measurements [] s = s"
| "deductLoop requiredMeasurementId measurements ((item, index) # rest) s =
     (if remainingToDeduct s \<le> 0 then s
      else case convertMeasurement requiredMeasurementId (measurementId item)
                  (remainingToDeduct s) measurements of
             None \<Rightarrow> deductLoop requiredMeasurementId measurements rest s
           | Some amountInItemUnit \<Rightarrow>
               deductLoop requiredMeasurementId measurements rest
                 (deductStep requiredMeasurementId measurements item index amountInItemUnit s))"

text \<open>The state in which the loop ends, before the marked lots are removed.\<close>

definition deductFinal ::
  "string \<Rightarrow> string \<Rightarrow> real \<Rightarrow> InventoryItem list \<Rightarrow> Measurement list \<Rightarrow> string \<Rightarrow> DeductState" where
  "deductFinal ingId requiredMeasurementId requiredQuantity inventory measurements uid =
     deductLoop requiredMeasurementId measurements
       (sortedItems ingId requiredMeasurementId inventory uid)
       \<lparr>updatedInventory = inventory, deducted = [], remainingToDeduct = requiredQuantity\<rparr>"

record DeductResult =
  res_updatedInventory :: "InventoryItem list"
  res_deducted :: "Deduction list"

definition deductFromInventory ::
  "string \<Rightarrow> string \<Rightarrow> real \<Rightarrow> InventoryItem list \<Rightarrow> Measurement list \<Rightarrow> string \<Rightarrow> DeductResult" where
  "deductFromInventory ingId requiredMeasurementId requiredQuantity inventory measurements uid =
     (let s = deductFinal ingId requiredMeasurementId requiredQuantity inventory measurements uid
      in \<lparr>res_updatedInventory = filter (\<lambda>item. quantity item \<noteq> - 1) (updatedInventory s),
          res_deducted = deducted s\<rparr>)"

text \<open>
  A record of the run, for stating properties of it: for every pass that reaches
  \<^verbatim>\<open>Math.min\<close>, the lot, its index and \<open>amountInItemUnit\<close>. It follows the control
  flow of \<^const>\<open>deductLoop\<close> and changes nothing.
\<close>

fun deductTrace ::
  "string \<Rightarrow> Measurement list \<Rightarrow> (InventoryItem \<times> nat) list \<Rightarrow> DeductState \<Rightarrow>
     (InventoryItem \<times> nat \<times> real) list" where
  "deductTrace requiredMeasurementId measurements [] s = []"
| "deductTrace requiredMeasurementId measurements ((item, index) # rest) s =
     (if remainingToDeduct s \<le> 0 then []
      else case convertMeasurement requiredMeasurementId (measurementId item)
                  (remainingToDeduct s) measurements of
             None \<Rightarrow> deductTrace requiredMeasurementId measurements rest s
           | Some amountInItemUnit \<Rightarrow>
               (item, index, amountInItemUnit) #
               deductTrace requiredMeasurementId measurements rest
                 (deductStep requiredMeasurementId measurements item index amountInItemUnit s))"

definition deductedFrom ::
  "string \<Rightarrow> string \<Rightarrow> real \<Rightarrow> InventoryItem list \<Rightarrow> Measurement list \<Rightarrow> string \<Rightarrow>
     (InventoryItem \<times> nat \<times> real) list" where
  "deductedFrom ingId requiredMeasurementId requiredQuantity inventory measurements uid =
     deductTrace requiredMeasurementId measurements
       (sortedItems ingId requiredMeasurementId inventory uid)
       \<lparr>updatedInventory = inventory, deducted = [], remainingToDeduct = requiredQuantity\<rparr>"

text \<open>
  What the record stores and what the final \<^verbatim>\<open>filter\<close> keeps, by position: the lot
  that a pass writes into the working array, and the positions of the working array
  that are not marked.
\<close>

definition writtenLot :: "InventoryItem \<Rightarrow> real \<Rightarrow> InventoryItem" where
  "writtenLot item amountInItemUnit =
     (let newQuantity = quantity item - min (quantity item) amountInItemUnit
      in if newQuantity > 0.001 then item\<lparr>quantity := newQuantity\<rparr>
         else item\<lparr>quantity := - 1\<rparr>)"

definition ledgerEntry :: "InventoryItem \<times> nat \<times> real \<Rightarrow> Deduction" where
  "ledgerEntry e =
     \<lparr>d_measurementId = measurementId (fst e),
      d_quantity = min (quantity (fst e)) (snd (snd e))\<rparr>"

definition survivors :: "InventoryItem list \<Rightarrow> nat list" where
  "survivors working = filter (\<lambda>i. quantity (working ! i) \<noteq> - 1) [0..<length working]"

text \<open>
  The key of the data model: no two lots of an inventory share the user, the ingredient
  and the unit. \<^verbatim>\<open>handleAddInventoryItem\<close> and \<^verbatim>\<open>handleEditInventoryItem\<close> merge
  on it, so every inventory that \<^verbatim>\<open>App\<close> hands to the engine has it.
\<close>

definition uniqueKeys :: "InventoryItem list \<Rightarrow> bool" where
  "uniqueKeys lots \<longleftrightarrow>
     distinct (map (\<lambda>item. (userId item, ingredientId item, measurementId item)) lots)"

subsection \<open>Cooking sessions\<close>

record RecipeIngredient =
  ri_ingredientId :: string
  ri_quantity :: real
  ri_measurementId :: string

record Recipe =
  r_id :: string
  r_userId :: string
  r_name :: string
  description :: string
  servings :: real
  ingredients :: "RecipeIngredient list"
  instructions :: "string list"
  viewCount :: nat
  cookCount :: nat
  createdAt :: nat

datatype SessionStatus = Active | Completed | Cancelled

text \<open>
  \<open>s_userId\<close> is optional because \<^verbatim>\<open>handleStartCooking\<close> stores
  \<^verbatim>\<open>data.currentUserId!\<close>, which is \<^verbatim>\<open>null\<close> when nobody is logged in; the handlers
  compare it with \<^verbatim>\<open>data.currentUserId\<close> by \<^verbatim>\<open>===\<close>.
\<close>

record CookingSession =
  s_id :: string
  recipeId :: string
  s_userId :: "string option"
  ingredientsChecked :: "nat list"
  stepsChecked :: "nat list"
  servingSize :: real
  status :: SessionStatus

datatype View =
  V_dashboard | V_recipes | V_recipe_detail | V_recipe_form | V_cook_mode
  | V_ingredients | V_measurements | V_inventory

text \<open>
  The state of \<^verbatim>\<open>App\<close> that the session handlers read or write: the fields of
  \<^verbatim>\<open>AppData\<close> they use (\<^verbatim>\<open>users\<close>, \<^verbatim>\<open>ingredients\<close> and \<^verbatim>\<open>version\<close> are
  carried along by \<^verbatim>\<open>...data\<close> and left out here) and the two \<^verbatim>\<open>useState\<close> cells
  \<^verbatim>\<open>selectedRecipeId\<close> and \<^verbatim>\<open>currentView\<close>.
\<close>

record AppState =
  recipes :: "Recipe list"
  measurements :: "Measurement list"
  inventory :: "InventoryItem list"
  cookingSessions :: "CookingSession list"
  currentUserId :: "string option"
  selectedRecipeId :: "string option"
  currentView :: View

text \<open>The predicate of the three \<^verbatim>\<open>cookingSessions.find\<close> calls.\<close>

definition activeFor :: "string option \<Rightarrow> string option \<Rightarrow> CookingSession \<Rightarrow> bool" where
  "activeFor rid uid s \<longleftrightarrow> Some (recipeId s) = rid \<and> s_userId s = uid \<and> status s = Active"

text \<open>\<^verbatim>\<open>handleStartCooking\<close>; \<open>newId\<close> is what \<^verbatim>\<open>generateId()\<close> returns.\<close>

definition handleStartCooking :: "string \<Rightarrow> string \<Rightarrow> AppState \<Rightarrow> AppState" where
  "handleStartCooking newId rid d =
     (case find (\<lambda>r. r_id r = rid) (recipes d) of
        None \<Rightarrow> d
      | Some recipe \<Rightarrow>
          (case find (activeFor (Some rid) (currentUserId d)) (cookingSessions d) of
             None \<Rightarrow>
               d\<lparr>cookingSessions := cookingSessions d @
                    [\<lparr>s_id = newId, recipeId = rid, s_userId = currentUserId d,
                      ingredientsChecked = [], stepsChecked = [],
                      servingSize = servings recipe, status = Active\<rparr>]\<rparr>
           | Some existingSession \<Rightarrow> d)
          \<lparr>selectedRecipeId := Some rid, currentView := V_cook_mode\<rparr>)"

definition handleUpdateCookingSession :: "CookingSession \<Rightarrow> AppState \<Rightarrow> AppState" where
  "handleUpdateCookingSession session d =
     d\<lparr>cookingSessions :=
         map (\<lambda>s. if s_id s = s_id session then session else s) (cookingSessions d)\<rparr>"

text \<open>The \<^verbatim>\<open>forEach\<close> over the recipe's ingredients, threading \<^verbatim>\<open>updatedInventory\<close>.\<close>

fun deductIngredients ::
  "Measurement list \<Rightarrow> string \<Rightarrow> real \<Rightarrow> RecipeIngredient list \<Rightarrow> InventoryItem list \<Rightarrow>
     InventoryItem list" where
  "deductIngredients ms uid scalingFactor [] updInv = updInv"
| "deductIngredients ms uid scalingFactor (ing # rest) updInv =
     deductIngredients ms uid scalingFactor rest
       (res_updatedInventory
          (deductFromInventory (ri_ingredientId ing) (ri_measurementId ing)
             (ri_quantity ing * scalingFactor) updInv ms uid))"

text \<open>
  \<^verbatim>\<open>handleCompleteCooking\<close>. \<^verbatim>\<open>recipe && data.currentUserId\<close> is false for
  \<^verbatim>\<open>null\<close> and for the empty string.
\<close>

definition handleCompleteCooking :: "AppState \<Rightarrow> AppState" where
  "handleCompleteCooking d =
     (case find (activeFor (selectedRecipeId d) (currentUserId d)) (cookingSessions d) of
        None \<Rightarrow> d
      | Some session \<Rightarrow>
          (case find (\<lambda>r. Some (r_id r) = selectedRecipeId d) (recipes d) of
             None \<Rightarrow> d
           | Some recipe \<Rightarrow>
               (case currentUserId d of
                  None \<Rightarrow> d
                | Some uid \<Rightarrow>
                    if uid = [] then d
                    else
                      let scalingFactor = servingSize session / servings recipe;
                          newInventory =
                            deductIngredients (measurements d) uid scalingFactor
                              (ingredients recipe) (inventory d);
                          updatedSessions =
                            map (\<lambda>s. if s_id s = s_id session then s\<lparr>status := Completed\<rparr> else s)
                              (cookingSessions d);
                          updatedRecipes =
                            map (\<lambda>r. if Some (r_id r) = selectedRecipeId d
                                      then r\<lparr>cookCount := cookCount r + 1\<rparr> else r)
                              (recipes d)
                      in d\<lparr>cookingSessions := updatedSessions, recipes := updatedRecipes,
                           inventory := newInventory\<rparr>)))
     \<lparr>currentView := V_recipes\<rparr>"

definition handleCancelCooking :: "AppState \<Rightarrow> AppState" where
  "handleCancelCooking d =
     (case find (activeFor (selectedRecipeId d) (currentUserId d)) (cookingSessions d) of
        None \<Rightarrow> d
      | Some session \<Rightarrow>
          d\<lparr>cookingSessions :=
              map (\<lambda>s. if s_id s = s_id session then s\<lparr>status := Cancelled\<rparr> else s)
                (cookingSessions d)\<rparr>)
     \<lparr>currentView := V_recipes\<rparr>"

text \<open>At most one active session for every pair of a recipe and a user.\<close>

definition oneActivePerPair :: "CookingSession list \<Rightarrow> bool" where
  "oneActivePerPair ss \<longleftrightarrow>
     distinct (map (\<lambda>s. (recipeId s, s_userId s)) (filter (\<lambda>s. status s = Active) ss))"

text \<open>
  An update as \<^verbatim>\<open>CookMode\<close> issues it: the session written carries the recipe, the user
  and the status of every stored session with its id (\<^verbatim>\<open>CookMode\<close> spreads the stored
  session and replaces the serving size and the two checklists only).
\<close>

definition keepsIdentity :: "CookingSession \<Rightarrow> CookingSession list \<Rightarrow> bool" where
  "keepsIdentity session ss \<longleftrightarrow>
     list_all (\<lambda>s. s_id s = s_id session \<longrightarrow>
                 recipeId s = recipeId session \<and> s_userId s = s_userId session
                 \<and> status s = status session) ss"

text \<open>
  The states that the four session handlers reach from a state without sessions, with
  every update keeping the identity of the session; \<open>switchUser\<close> is what
  \<^verbatim>\<open>handleLogin\<close> and \<^verbatim>\<open>handleLogout\<close> do to \<^verbatim>\<open>currentUserId\<close>.
\<close>

inductive reachable :: "AppState \<Rightarrow> bool" where
  init: "cookingSessions d = [] \<Longrightarrow> reachable d"
| start: "reachable d \<Longrightarrow> reachable (handleStartCooking newId rid d)"
| update: "reachable d \<Longrightarrow> keepsIdentity session (cookingSessions d) \<Longrightarrow>
           reachable (handleUpdateCookingSession session d)"
| complete: "reachable d \<Longrightarrow> reachable (handleCompleteCooking d)"
| cancel: "reachable d \<Longrightarrow> reachable (handleCancelCooking d)"
| switchUser: "reachable d \<Longrightarrow> reachable (d\<lparr>currentUserId := u\<rparr>)"

subsection \<open>Example data\<close>

text \<open>
  The end-to-end scenario: a recipe for four servings that needs two cups of flour, a
  user with exactly one cup of flour in stock, and no session yet.
\<close>

definition flourRecipe :: Recipe where
  "flourRecipe =
     \<lparr>r_id = ''r'', r_userId = ''u'', r_name = ''bread'', description = [], servings = 4,
      ingredients = [\<lparr>ri_ingredientId = ''78'', ri_quantity = 2, ri_measurementId = ''1''\<rparr>],
      instructions = [], viewCount = 0, cookCount = 0, createdAt = 0\<rparr>"

definition exampleState :: AppState where
  "exampleState =
     \<lparr>recipes = [flourRecipe], measurements = defaultMeasurements,
      inventory = [\<lparr>userId = ''u'', ingredientId = ''78'', quantity = 1, measurementId = ''1''\<rparr>],
      cookingSessions = [], currentUserId = Some ''u'', selectedRecipeId = None,
      currentView = V_dashboard\<rparr>"

definition sessionA :: CookingSession where
  "sessionA =
     \<lparr>s_id = ''a'', recipeId = ''r'', s_userId = Some ''u'', ingredientsChecked = [],
      stepsChecked = [], servingSize = 4, status = Active\<rparr>"

definition sessionB :: CookingSession where
  "sessionB =
     \<lparr>s_id = ''b'', recipeId = ''r'', s_userId = Some ''u'', ingredientsChecked = [],
      stepsChecked = [], servingSize = 4, status = Active\<rparr>"

text \<open>Session \<open>a\<close> after the user has ticked the ingredient and halved the servings.\<close>

definition sessionA_halved :: CookingSession where
  "sessionA_halved = sessionA\<lparr>ingredientsChecked := [0], servingSize := 2\<rparr>"

section \<open>Properties of the conversion engine\<close>

lemma find_edge_None:
  "find (\<lambda>c. toMeasurementId c = t) cs = None \<longleftrightarrow> t \<notin> toMeasurementId ` set cs"
  by (induction cs) auto

lemma totalLoop_sum:
  "totalLoop t ms items tot =
     tot + (\<Sum>item\<leftarrow>items.
              case convertMeasurement (measurementId item) t (quantity item) ms of
                Some converted \<Rightarrow> converted | None \<Rightarrow> 0)"
  by (induction items arbitrary: tot) (auto split: option.splits)

lemma convert_defaults_cup_ml:
  "convertMeasurement ''1'' ''9'' q defaultMeasurements = Some (q * 236.588)"
  by (simp add: convertMeasurement_def defaultMeasurements_def meas_def conv_def)

text \<open>
  C7. \<^const>\<open>convertMeasurement\<close> returns the quantity unchanged when the two unit ids
  are equal, whatever the measurement list holds. For different ids it returns a value
  exactly when the measurement that \<^verbatim>\<open>find\<close> yields for the source id has an edge to
  the target id, and the value is the quantity times the factor of the first such edge;
  in every other case it returns \<open>None\<close>. Edges of other measurements play no part:
  with the single edge \<open>b \<rightarrow> a\<close> the conversion \<open>a \<rightarrow> b\<close> has no path, and with
  \<open>a \<rightarrow> b\<close> and \<open>b \<rightarrow> c\<close> the conversion \<open>a \<rightarrow> c\<close> has none.
\<close>

theorem convertMeasurement_direct_edge_only:
  "convertMeasurement u u q ms = Some q
   \<and> (f \<noteq> t \<longrightarrow>
        ((\<exists>r. convertMeasurement f t q ms = Some r) \<longleftrightarrow>
           (\<exists>m. find (\<lambda>m. m_id m = f) ms = Some m \<and> t \<in> toMeasurementId ` set (conversions m)))
        \<and> (\<forall>m c. find (\<lambda>m. m_id m = f) ms = Some m \<longrightarrow>
                   find (\<lambda>c. toMeasurementId c = t) (conversions m) = Some c \<longrightarrow>
                   convertMeasurement f t q ms = Some (q * factor c)))
   \<and> convertMeasurement ''a'' ''b'' q [meas ''a'' ''A'' [], meas ''b'' ''B'' [conv ''a'' 2]] = None
   \<and> convertMeasurement ''b'' ''a'' q [meas ''a'' ''A'' [], meas ''b'' ''B'' [conv ''a'' 2]]
       = Some (q * 2)
   \<and> convertMeasurement ''a'' ''c'' q
        [meas ''a'' ''A'' [conv ''b'' 2], meas ''b'' ''B'' [conv ''c'' 3], meas ''c'' ''C'' []]
       = None"
proof -
  have same: "convertMeasurement u u q ms = Some q"
    by (simp add: convertMeasurement_def)
  have path: "(\<exists>r. convertMeasurement f t q ms = Some r) \<longleftrightarrow>
      (\<exists>m. find (\<lambda>m. m_id m = f) ms = Some m \<and> t \<in> toMeasurementId ` set (conversions m))"
    if "f \<noteq> t"
  proof (cases "find (\<lambda>m. m_id m = f) ms")
    case None
    with that show ?thesis by (simp add: convertMeasurement_def)
  next
    case (Some m)
    show ?thesis
    proof (cases "find (\<lambda>c. toMeasurementId c = t) (conversions m)")
      case None
      with Some that show ?thesis
        using find_edge_None [of t "conversions m"] by (simp add: convertMeasurement_def)
    next
      case (Some c)
      with \<open>find (\<lambda>m. m_id m = f) ms = Some m\<close> that show ?thesis
        using find_edge_None [of t "conversions m"] by (simp add: convertMeasurement_def)
    qed
  qed
  have val: "convertMeasurement f t q ms = Some (q * factor c)"
    if "f \<noteq> t" "find (\<lambda>m. m_id m = f) ms = Some m"
       "find (\<lambda>c. toMeasurementId c = t) (conversions m) = Some c" for m c
    using that by (simp add: convertMeasurement_def)
  have ex: "convertMeasurement ''a'' ''b'' q [meas ''a'' ''A'' [], meas ''b'' ''B'' [conv ''a'' 2]] = None"
    "convertMeasurement ''b'' ''a'' q [meas ''a'' ''A'' [], meas ''b'' ''B'' [conv ''a'' 2]]
       = Some (q * 2)"
    "convertMeasurement ''a'' ''c'' q
        [meas ''a'' ''A'' [conv ''b'' 2], meas ''b'' ''B'' [conv ''c'' 3], meas ''c'' ''C'' []]
       = None"
    by (simp_all add: convertMeasurement_def meas_def conv_def)
  from same path val ex show ?thesis by blast
qed

theorem convertMeasurement_direct_edge_only_witness:
  "convertMeasurement ''15'' ''15'' 5 defaultMeasurements = Some 5
   \<and> ''1'' \<noteq> ''2''
   \<and> find (\<lambda>m. m_id m = ''1'') defaultMeasurements = Some (hd defaultMeasurements)
   \<and> find (\<lambda>c. toMeasurementId c = ''2'') (conversions (hd defaultMeasurements))
       = Some (conv ''2'' 16)
   \<and> convertMeasurement ''1'' ''2'' 1 defaultMeasurements = Some 16
   \<and> convertMeasurement ''2'' ''1'' 1 defaultMeasurements = Some 0.0625
   \<and> convertMeasurement ''15'' ''1'' 5 defaultMeasurements = None"
proof -
  have m: "find (\<lambda>m. m_id m = ''1'') defaultMeasurements = Some (hd defaultMeasurements)"
    by (simp add: defaultMeasurements_def meas_def)
  have c: "find (\<lambda>c. toMeasurementId c = ''2'') (conversions (hd defaultMeasurements))
       = Some (conv ''2'' 16)"
    by (simp add: defaultMeasurements_def meas_def conv_def)
  have ne: "''1'' \<noteq> ''2''" by simp
  have "convertMeasurement ''1'' ''2'' 1 defaultMeasurements = Some (1 * factor (conv ''2'' 16))"
    using convertMeasurement_direct_edge_only
      [where u = "''15''" and q = 1 and ms = defaultMeasurements and f = "''1''" and t = "''2''"]
      ne m c
    by blast
  moreover have "convertMeasurement ''15'' ''15'' 5 defaultMeasurements = Some 5"
    using convertMeasurement_direct_edge_only
      [where u = "''15''" and q = 5 and ms = defaultMeasurements]
    by blast
  moreover have "convertMeasurement ''2'' ''1'' 1 defaultMeasurements = Some 0.0625"
    "convertMeasurement ''15'' ''1'' 5 defaultMeasurements = None"
    by (simp_all add: convertMeasurement_def defaultMeasurements_def meas_def conv_def)
  ultimately show ?thesis using m c ne by (simp add: conv_def)
qed

text \<open>
  C8. \<^const>\<open>getTotalInventoryInUnit\<close> is the sum, over the lots of the inventory with
  the given ingredient id, of the quantity converted into the target unit, a lot without
  a conversion path adding nothing. With the seed measurements, two cups and 500
  millilitres of one ingredient total \<open>2 * 236.588 + 500\<close> millilitres (exactly, in the
  exact arithmetic of the model).
\<close>

theorem getTotalInventoryInUnit_sum:
  "getTotalInventoryInUnit ingId t lots ms =
     (\<Sum>item\<leftarrow>filter (\<lambda>item. ingredientId item = ingId) lots.
        case convertMeasurement (measurementId item) t (quantity item) ms of
          Some converted \<Rightarrow> converted | None \<Rightarrow> 0)
   \<and> getTotalInventoryInUnit ''78'' ''9''
        [\<lparr>userId = ''u'', ingredientId = ''78'', quantity = 2, measurementId = ''1''\<rparr>,
         \<lparr>userId = ''u'', ingredientId = ''78'', quantity = 500, measurementId = ''9''\<rparr>]
        defaultMeasurements = 2 * 236.588 + 500"
  by (simp add: getTotalInventoryInUnit_def totalLoop_sum convert_defaults_cup_ml
      convertMeasurement_def [of "''9''" "''9''"])

text \<open>
  C9. \<^const>\<open>hasEnoughInventory\<close> reports as available the total of the ingredient in
  the required unit, and \<open>hasEnough\<close> is the plain comparison \<open>available \<ge> required\<close>:
  a requirement equal to the total is met.
\<close>

theorem hasEnoughInventory_exact:
  "available (hasEnoughInventory ingId u rq lots ms) = getTotalInventoryInUnit ingId u lots ms
   \<and> (hasEnough (hasEnoughInventory ingId u rq lots ms) \<longleftrightarrow>
        rq \<le> getTotalInventoryInUnit ingId u lots ms)
   \<and> hasEnough (hasEnoughInventory ingId u (getTotalInventoryInUnit ingId u lots ms) lots ms)"
  by (simp add: hasEnoughInventory_def Let_def)

section \<open>Properties of the deduction engine\<close>

subsection \<open>The order in which lots are processed\<close>

lemma insertPivot_exact:
  "measurementId (fst pivot) = req \<Longrightarrow>
     insertPivot (compareItems req) pivot placed = placed @ [pivot]"
  by (induction placed) (simp_all add: compareItems_def)

lemma insertPivot_other:
  "measurementId (fst pivot) \<noteq> req \<Longrightarrow>
     insertPivot (compareItems req) pivot placed = pivot # placed"
  by (cases placed) (simp_all add: compareItems_def)

lemma foldl_insertPivot:
  "foldl (\<lambda>placed pivot. insertPivot (compareItems req) pivot placed) acc xs =
     rev (filter (\<lambda>p. measurementId (fst p) \<noteq> req) xs) @ acc
       @ filter (\<lambda>p. measurementId (fst p) = req) xs"
  by (induction xs arbitrary: acc) (simp_all add: insertPivot_exact insertPivot_other)

lemma sortArray_compareItems:
  "sortArray (compareItems req) xs =
     rev (filter (\<lambda>p. measurementId (fst p) = req) xs)
       @ filter (\<lambda>p. measurementId (fst p) \<noteq> req) xs"
  by (simp add: sortArray_def foldl_insertPivot)

lemma mset_sortedItems:
  "mset (sortedItems ingId req lots uid) = mset (relevantItems ingId lots uid)"
  by (simp add: sortedItems_def sortArray_compareItems)

lemma set_sortedItems:
  "set (sortedItems ingId req lots uid) = set (relevantItems ingId lots uid)"
  using mset_sortedItems [of ingId req lots uid] by (metis set_mset_mset)

lemma map_fst_filter_zip_upt:
  "map fst (filter (\<lambda>p. P (fst p)) (zip xs [k..<k + length xs])) = filter P xs"
proof (induction xs arbitrary: k)
  case Nil
  show ?case by simp
next
  case (Cons x xs)
  have "[k..<k + length (x # xs)] = k # [Suc k..<Suc k + length xs]"
    by (simp del: upt_Suc add: upt_conv_Cons)
  with Cons [of "Suc k"] show ?case by simp
qed

lemma length_exact_relevant:
  "length (filter (\<lambda>p. measurementId (fst p) = req) (relevantItems ingId lots uid)) =
     length (filter (\<lambda>item. userId item = uid \<and> ingredientId item = ingId
                        \<and> measurementId item = req) lots)"
proof -
  have "filter (\<lambda>p. measurementId (fst p) = req) (relevantItems ingId lots uid) =
      filter (\<lambda>p. (\<lambda>item. userId item = uid \<and> ingredientId item = ingId
                        \<and> measurementId item = req) (fst p)) (zip lots [0..<0 + length lots])"
    by (auto simp: relevantItems_def intro: filter_cong)
  then have "map fst (filter (\<lambda>p. measurementId (fst p) = req) (relevantItems ingId lots uid)) =
      filter (\<lambda>item. userId item = uid \<and> ingredientId item = ingId
                        \<and> measurementId item = req) lots"
    using map_fst_filter_zip_upt
      [of "\<lambda>item. userId item = uid \<and> ingredientId item = ingId \<and> measurementId item = req"
          lots 0]
    by simp
  then show ?thesis by (metis length_map)
qed

lemma rev_short: "length xs \<le> 1 \<Longrightarrow> rev xs = xs"
  by (cases xs) auto


lemma relevantItems_two:
  "relevantItems ingId [a, b] uid =
     filter (\<lambda>(item, index). userId item = uid \<and> ingredientId item = ingId) [(a, 0), (b, 1)]"
  by (simp add: relevantItems_def upt_conv_Cons)

lemma convert_same: "convertMeasurement u u q ms = Some q"
  by (simp add: convertMeasurement_def)

lemma distinct_map_filter_key:
  "distinct (map f xs) \<Longrightarrow> length (filter (\<lambda>x. f x = k) xs) \<le> 1"
proof (induction xs)
  case Nil
  show ?case by simp
next
  case (Cons x xs)
  show ?case
  proof (cases "f x = k")
    case True
    with Cons.prems have "k \<notin> f ` set xs" by auto
    then have "filter (\<lambda>x. f x = k) xs = []"
      by (auto simp: filter_empty_conv)
    with True show ?thesis by simp
  next
    case False
    with Cons show ?thesis by simp
  qed
qed

lemma uniqueKeys_one_exact:
  assumes "uniqueKeys lots"
  shows "length (filter (\<lambda>item. userId item = uid \<and> ingredientId item = ingId
                           \<and> measurementId item = req) lots) \<le> 1"
  using distinct_map_filter_key [of "\<lambda>item. (userId item, ingredientId item, measurementId item)"
      lots "(uid, ingId, req)"] assms
  by (simp add: uniqueKeys_def)

lemma sorted_positions_relevantItems:
  "sorted (map snd (filter P (relevantItems ingId lots uid)))"
proof -
  have "sorted (map snd (zip lots [0..<length lots]))" by simp
  then have "sorted (map snd (relevantItems ingId lots uid))"
    unfolding relevantItems_def by (rule sorted_filter)
  then show ?thesis by (rule sorted_filter)
qed


text \<open>
  C1. On an inventory with the key of the data model (no two lots with the same user,
  ingredient and unit), the loop of \<^const>\<open>deductFromInventory\<close> runs over the lots
  of the given user and ingredient in this order: first the lots of the required unit,
  then the lots of another unit, and inside each of the two classes in the order of the
  inventory (positions ascending). With 500 ml and one cup in stock and half a cup
  required, half of the cup lot is deducted and the ml lot stays as it was.
\<close>

theorem sortedItems_required_unit_first:
  assumes "uniqueKeys lots"
  shows
    "sortedItems ingId req lots uid =
       filter (\<lambda>p. measurementId (fst p) = req) (relevantItems ingId lots uid)
       @ filter (\<lambda>p. measurementId (fst p) \<noteq> req) (relevantItems ingId lots uid)
     \<and> filter (\<lambda>p. measurementId (fst p) = req) (sortedItems ingId req lots uid) =
         filter (\<lambda>p. measurementId (fst p) = req) (relevantItems ingId lots uid)
     \<and> filter (\<lambda>p. measurementId (fst p) \<noteq> req) (sortedItems ingId req lots uid) =
         filter (\<lambda>p. measurementId (fst p) \<noteq> req) (relevantItems ingId lots uid)
     \<and> sorted (map snd (filter (\<lambda>p. measurementId (fst p) = req)
                           (sortedItems ingId req lots uid)))
     \<and> sorted (map snd (filter (\<lambda>p. measurementId (fst p) \<noteq> req)
                           (sortedItems ingId req lots uid)))
     \<and> mset (sortedItems ingId req lots uid) = mset (relevantItems ingId lots uid)
     \<and> deductFinal ingId req rq lots ms uid =
         deductLoop req ms
           (filter (\<lambda>p. measurementId (fst p) = req) (relevantItems ingId lots uid)
            @ filter (\<lambda>p. measurementId (fst p) \<noteq> req) (relevantItems ingId lots uid))
           \<lparr>updatedInventory = lots, deducted = [], remainingToDeduct = rq\<rparr>
     \<and> deductFromInventory ''X'' ''1'' 0.5
          [\<lparr>userId = ''u'', ingredientId = ''X'', quantity = 500, measurementId = ''9''\<rparr>,
           \<lparr>userId = ''u'', ingredientId = ''X'', quantity = 1, measurementId = ''1''\<rparr>]
          defaultMeasurements ''u'' =
         \<lparr>res_updatedInventory =
            [\<lparr>userId = ''u'', ingredientId = ''X'', quantity = 500, measurementId = ''9''\<rparr>,
             \<lparr>userId = ''u'', ingredientId = ''X'', quantity = 0.5, measurementId = ''1''\<rparr>],
          res_deducted = [\<lparr>d_measurementId = ''1'', d_quantity = 0.5\<rparr>]\<rparr>"
proof -
  let ?E = "\<lambda>p::InventoryItem \<times> nat. measurementId (fst p) = req"
  let ?N = "\<lambda>p::InventoryItem \<times> nat. measurementId (fst p) \<noteq> req"
  let ?R = "relevantItems ingId lots uid"
  let ?S = "sortedItems ingId req lots uid"
  have "length (filter ?E ?R) \<le> 1"
    using uniqueKeys_one_exact [OF assms, of uid ingId req]
    by (simp add: length_exact_relevant)
  then have "rev (filter ?E ?R) = filter ?E ?R" by (rule rev_short)
  then have S: "?S = filter ?E ?R @ filter ?N ?R"
    by (simp add: sortedItems_def sortArray_compareItems)
  have cls: "filter ?E ?S = filter ?E ?R" "filter ?N ?S = filter ?N ?R"
    unfolding S by simp_all
  have pos: "sorted (map snd (filter ?E ?S))" "sorted (map snd (filter ?N ?S))"
    unfolding cls by (rule sorted_positions_relevantItems)+
  have run: "deductFinal ingId req rq lots ms uid =
      deductLoop req ms (filter ?E ?R @ filter ?N ?R)
        \<lparr>updatedInventory = lots, deducted = [], remainingToDeduct = rq\<rparr>"
    by (simp only: deductFinal_def S)
  have example: "deductFromInventory ''X'' ''1'' 0.5
        [\<lparr>userId = ''u'', ingredientId = ''X'', quantity = 500, measurementId = ''9''\<rparr>,
         \<lparr>userId = ''u'', ingredientId = ''X'', quantity = 1, measurementId = ''1''\<rparr>]
        defaultMeasurements ''u'' =
       \<lparr>res_updatedInventory =
          [\<lparr>userId = ''u'', ingredientId = ''X'', quantity = 500, measurementId = ''9''\<rparr>,
           \<lparr>userId = ''u'', ingredientId = ''X'', quantity = 0.5, measurementId = ''1''\<rparr>],
        res_deducted = [\<lparr>d_measurementId = ''1'', d_quantity = 0.5\<rparr>]\<rparr>"
    by (simp add: deductFromInventory_def deductFinal_def sortedItems_def
        sortArray_compareItems relevantItems_two deductStep_def convert_same Let_def)
  from S cls pos mset_sortedItems [of ingId req lots uid] run example
  show ?thesis by blast
qed

theorem sortedItems_required_unit_first_witness:
  "uniqueKeys
        [\<lparr>userId = ''u'', ingredientId = ''X'', quantity = 500, measurementId = ''9''\<rparr>,
         \<lparr>userId = ''v'', ingredientId = ''X'', quantity = 7, measurementId = ''1''\<rparr>,
         \<lparr>userId = ''u'', ingredientId = ''X'', quantity = 3, measurementId = ''2''\<rparr>,
         \<lparr>userId = ''u'', ingredientId = ''X'', quantity = 1, measurementId = ''1''\<rparr>]
   \<and> map snd (sortedItems ''X'' ''1''
        [\<lparr>userId = ''u'', ingredientId = ''X'', quantity = 500, measurementId = ''9''\<rparr>,
         \<lparr>userId = ''v'', ingredientId = ''X'', quantity = 7, measurementId = ''1''\<rparr>,
         \<lparr>userId = ''u'', ingredientId = ''X'', quantity = 3, measurementId = ''2''\<rparr>,
         \<lparr>userId = ''u'', ingredientId = ''X'', quantity = 1, measurementId = ''1''\<rparr>] ''u'')
       = [3, 0, 2]"
proof -
  let ?lots = "[\<lparr>userId = ''u'', ingredientId = ''X'', quantity = 500, measurementId = ''9''\<rparr>,
         \<lparr>userId = ''v'', ingredientId = ''X'', quantity = 7, measurementId = ''1''\<rparr>,
         \<lparr>userId = ''u'', ingredientId = ''X'', quantity = 3, measurementId = ''2''\<rparr>,
         \<lparr>userId = ''u'', ingredientId = ''X'', quantity = 1, measurementId = ''1''\<rparr>]"
  have key: "uniqueKeys ?lots"
    by (simp add: uniqueKeys_def)
  have "sortedItems ''X'' ''1'' ?lots ''u'' =
          filter (\<lambda>p. measurementId (fst p) = ''1'') (relevantItems ''X'' ?lots ''u'')
          @ filter (\<lambda>p. measurementId (fst p) \<noteq> ''1'') (relevantItems ''X'' ?lots ''u'')"
    by (rule sortedItems_required_unit_first [OF key, THEN conjunct1])
  then have order: "map snd (sortedItems ''X'' ''1'' ?lots ''u'') = [3, 0, 2]"
    by (simp add: relevantItems_def upt_conv_Cons)
  show ?thesis by (rule conjI [OF key order])
qed

subsection \<open>The loop, pass by pass\<close>

lemma deductStep_simps:
  "updatedInventory (deductStep req ms item index amount s) =
     (updatedInventory s)[index := writtenLot item amount]"
  "deducted (deductStep req ms item index amount s) =
     deducted s @ [ledgerEntry (item, index, amount)]"
  "remainingToDeduct (deductStep req ms item index amount s) =
     (case convertMeasurement (measurementId item) req (min (quantity item) amount) ms of
        Some back \<Rightarrow> remainingToDeduct s - back
      | None \<Rightarrow> remainingToDeduct s)"
proof -
  let ?c = "quantity item - min (quantity item) amount > 0.001"
  show "updatedInventory (deductStep req ms item index amount s) =
     (updatedInventory s)[index := writtenLot item amount]"
    unfolding deductStep_def writtenLot_def Let_def
    by (cases ?c) (simp_all only: if_True if_False DeductState.simps)
  show "deducted (deductStep req ms item index amount s) =
     deducted s @ [ledgerEntry (item, index, amount)]"
    unfolding deductStep_def ledgerEntry_def Let_def
    by (simp only: DeductState.simps fst_conv snd_conv)
  show "remainingToDeduct (deductStep req ms item index amount s) =
     (case convertMeasurement (measurementId item) req (min (quantity item) amount) ms of
        Some back \<Rightarrow> remainingToDeduct s - back
      | None \<Rightarrow> remainingToDeduct s)"
    unfolding deductStep_def Let_def
    by (simp only: DeductState.simps)
qed

lemma length_deductLoop:
  "length (updatedInventory (deductLoop req ms items s)) = length (updatedInventory s)"
  by (induction req ms items s rule: deductLoop.induct)
     (simp_all add: deductStep_simps split: option.splits)

lemma deducted_deductLoop:
  "deducted (deductLoop req ms items s) =
     deducted s @ map ledgerEntry (deductTrace req ms items s)"
  by (induction req ms items s rule: deductLoop.induct)
     (simp_all add: deductStep_simps split: option.splits)

lemma deductTrace_subset:
  "(item, index, amount) \<in> set (deductTrace req ms items s) \<Longrightarrow> (item, index) \<in> set items"
  by (induction req ms items s rule: deductTrace.induct)
     (auto split: if_splits option.splits)

lemma deductTrace_amount:
  "(item, index, amount) \<in> set (deductTrace req ms items s) \<Longrightarrow>
     \<exists>remaining. 0 < remaining
       \<and> convertMeasurement req (measurementId item) remaining ms = Some amount"
proof (induction req ms items s rule: deductTrace.induct)
  case (1 req ms s)
  then show ?case by simp
next
  case (2 req ms it ix rest s)
  show ?case
  proof (cases "remainingToDeduct s \<le> 0")
    case True
    with 2 show ?thesis by simp
  next
    case pos: False
    show ?thesis
    proof (cases "convertMeasurement req (measurementId it) (remainingToDeduct s) ms")
      case None
      with pos 2 show ?thesis by simp
    next
      case (Some a)
      with pos 2 show ?thesis by (auto intro: exI [of _ "remainingToDeduct s"])
    qed
  qed
qed

lemma deductLoop_untouched:
  "i \<notin> (\<lambda>e. fst (snd e)) ` set (deductTrace req ms items s) \<Longrightarrow>
     updatedInventory (deductLoop req ms items s) ! i = updatedInventory s ! i"
  by (induction req ms items s rule: deductLoop.induct)
     (auto simp: deductStep_simps split: option.splits)

lemma deductLoop_touched:
  "(item, index, amount) \<in> set (deductTrace req ms items s) \<Longrightarrow>
   distinct (map snd items) \<Longrightarrow>
   \<forall>p \<in> set items. snd p < length (updatedInventory s) \<Longrightarrow>
     updatedInventory (deductLoop req ms items s) ! index = writtenLot item amount"
proof (induction req ms items s rule: deductLoop.induct)
  case (1 req ms s)
  then show ?case by simp
next
  case (2 req ms it ix rest s)
  from "2.prems"(1) have pos: "\<not> remainingToDeduct s \<le> 0"
    by (auto split: if_splits)
  show ?case
  proof (cases "convertMeasurement req (measurementId it) (remainingToDeduct s) ms")
    case None
    with pos 2 show ?thesis by simp
  next
    case (Some a)
    let ?s' = "deductStep req ms it ix a s"
    from "2.prems"(1) pos Some
    consider (head) "item = it" "index = ix" "amount = a"
      | (tail) "(item, index, amount) \<in> set (deductTrace req ms rest ?s')"
      by auto
    then show ?thesis
    proof cases
      case head
      have "ix \<notin> (\<lambda>e. fst (snd e)) ` set (deductTrace req ms rest ?s')"
      proof
        assume "ix \<in> (\<lambda>e. fst (snd e)) ` set (deductTrace req ms rest ?s')"
        then obtain it' a' where "(it', ix, a') \<in> set (deductTrace req ms rest ?s')"
          by auto
        then have "(it', ix) \<in> set rest" by (rule deductTrace_subset)
        then have "ix \<in> snd ` set rest" by force
        with "2.prems"(2) show False by simp
      qed
      then have "updatedInventory (deductLoop req ms rest ?s') ! ix = updatedInventory ?s' ! ix"
        by (rule deductLoop_untouched)
      moreover from "2.prems"(3) have "ix < length (updatedInventory s)" by simp
      ultimately show ?thesis using pos Some head by (simp add: deductStep_simps)
    next
      case tail
      from "2.prems"(2) have d: "distinct (map snd rest)" by simp
      from "2.prems"(3) have b: "\<forall>p \<in> set rest. snd p < length (updatedInventory ?s')"
        by (simp add: deductStep_simps)
      from "2.IH"(2) [OF pos Some tail d b] pos Some show ?thesis by simp
    qed
  qed
qed

subsection \<open>The lots that take part\<close>

lemma relevantItems_iff:
  "(item, index) \<in> set (relevantItems ingId lots uid) \<longleftrightarrow>
     index < length lots \<and> lots ! index = item \<and> userId item = uid \<and> ingredientId item = ingId"
  by (auto simp: relevantItems_def set_zip)

lemma distinct_relevantItems: "distinct (map snd (relevantItems ingId lots uid))"
proof -
  have "distinct (map snd (zip lots [0..<length lots]))" by simp
  then show ?thesis
    unfolding relevantItems_def by (rule distinct_map_filter)
qed

lemma distinct_sortedItems: "distinct (map snd (sortedItems ingId req lots uid))"
proof -
  have "mset (map snd (sortedItems ingId req lots uid)) =
        mset (map snd (relevantItems ingId lots uid))"
    by (simp add: mset_sortedItems)
  then show ?thesis
    using distinct_relevantItems [of ingId lots uid] by (metis mset_eq_imp_distinct_iff)
qed

lemma sortedItems_iff:
  "(item, index) \<in> set (sortedItems ingId req lots uid) \<longleftrightarrow>
     index < length lots \<and> lots ! index = item \<and> userId item = uid \<and> ingredientId item = ingId"
  by (simp add: set_sortedItems relevantItems_iff)

lemma returned_by_position:
  "filter (\<lambda>item. quantity item \<noteq> - 1) working = map ((!) working) (survivors working)"
proof -
  have "filter (\<lambda>item. quantity item \<noteq> - 1) (map ((!) working) [0..<length working]) =
        map ((!) working) (survivors working)"
    unfolding survivors_def filter_map by (simp add: comp_def)
  then show ?thesis by (simp add: map_nth)
qed


lemma relevantItems_one:
  "relevantItems ingId [a] uid =
     filter (\<lambda>(item, index). userId item = uid \<and> ingredientId item = ingId) [(a, 0)]"
  by (simp add: relevantItems_def)

lemma deductFinal_length:
  "length (updatedInventory (deductFinal ingId req rq lots ms uid)) = length lots"
  by (simp add: deductFinal_def length_deductLoop)

lemma deductFromInventory_by_position:
  "res_updatedInventory (deductFromInventory ingId req rq lots ms uid) =
     map ((!) (updatedInventory (deductFinal ingId req rq lots ms uid)))
       (survivors (updatedInventory (deductFinal ingId req rq lots ms uid)))"
  by (simp add: deductFromInventory_def Let_def returned_by_position)

lemma deductFromInventory_ledger:
  "res_deducted (deductFromInventory ingId req rq lots ms uid) =
     map ledgerEntry (deductedFrom ingId req rq lots ms uid)"
  by (simp add: deductFromInventory_def Let_def deductFinal_def deductedFrom_def
      deducted_deductLoop)

lemma deductFinal_touched:
  assumes "(item, index, amount) \<in> set (deductedFrom ingId req rq lots ms uid)"
  shows "updatedInventory (deductFinal ingId req rq lots ms uid) ! index = writtenLot item amount"
proof -
  have "\<forall>p \<in> set (sortedItems ingId req lots uid). snd p < length lots"
    using sortedItems_iff [of _ _ ingId req lots uid] by auto
  then show ?thesis
    using assms distinct_sortedItems [of ingId req lots uid]
    unfolding deductedFrom_def deductFinal_def
    by (intro deductLoop_touched) simp_all
qed

lemma deductedFrom_lot:
  assumes "(item, index, amount) \<in> set (deductedFrom ingId req rq lots ms uid)"
  shows "index < length lots \<and> lots ! index = item \<and> userId item = uid
         \<and> ingredientId item = ingId"
  using assms deductTrace_subset sortedItems_iff unfolding deductedFrom_def by blast

text \<open>
  C2 (as amended). For every lot that a run deducts from (an entry of
  \<^const>\<open>deductedFrom\<close>: the lot, its position and the remaining amount converted into
  its unit), the amount deducted and entered in the ledger is the minimum of the lot's
  quantity and that converted amount, so the new quantity is never negative. The
  returned inventory keeps the position of the lot, with exactly the new quantity, when
  the new quantity is above \<open>0.001\<close>, and drops it when the new quantity is \<open>0.001\<close>
  or less.
\<close>

theorem deduct_min_and_threshold:
  "(item, index, amount) \<in> set (deductedFrom ingId req rq lots ms uid) \<Longrightarrow>
     index < length lots \<and> lots ! index = item \<and> userId item = uid \<and> ingredientId item = ingId
     \<and> (\<exists>remaining. 0 < remaining
           \<and> convertMeasurement req (measurementId item) remaining ms = Some amount)
     \<and> res_deducted (deductFromInventory ingId req rq lots ms uid) =
         map ledgerEntry (deductedFrom ingId req rq lots ms uid)
     \<and> ledgerEntry (item, index, amount) =
         \<lparr>d_measurementId = measurementId item, d_quantity = min (quantity item) amount\<rparr>
     \<and> 0 \<le> quantity item - min (quantity item) amount
     \<and> res_updatedInventory (deductFromInventory ingId req rq lots ms uid) =
         map ((!) (updatedInventory (deductFinal ingId req rq lots ms uid)))
           (survivors (updatedInventory (deductFinal ingId req rq lots ms uid)))
     \<and> (quantity item - min (quantity item) amount > 0.001 \<longrightarrow>
          index \<in> set (survivors (updatedInventory (deductFinal ingId req rq lots ms uid)))
          \<and> updatedInventory (deductFinal ingId req rq lots ms uid) ! index =
              item\<lparr>quantity := quantity item - min (quantity item) amount\<rparr>)
     \<and> (quantity item - min (quantity item) amount \<le> 0.001 \<longrightarrow>
          index \<notin> set (survivors (updatedInventory (deductFinal ingId req rq lots ms uid))))"
proof -
  assume e: "(item, index, amount) \<in> set (deductedFrom ingId req rq lots ms uid)"
  let ?W = "updatedInventory (deductFinal ingId req rq lots ms uid)"
  let ?new = "quantity item - min (quantity item) amount"
  note lot = deductedFrom_lot [OF e]
  have amt: "\<exists>remaining. 0 < remaining
           \<and> convertMeasurement req (measurementId item) remaining ms = Some amount"
    using e unfolding deductedFrom_def by (rule deductTrace_amount)
  have entry: "ledgerEntry (item, index, amount) =
         \<lparr>d_measurementId = measurementId item, d_quantity = min (quantity item) amount\<rparr>"
    by (simp add: ledgerEntry_def)
  have nonneg: "0 \<le> ?new" by simp
  have W: "?W ! index = writtenLot item amount" by (rule deductFinal_touched [OF e])
  have ix: "index < length ?W" using lot by (simp add: deductFinal_length)
  have kept: "index \<in> set (survivors ?W) \<and> ?W ! index = item\<lparr>quantity := ?new\<rparr>"
    if "?new > 0.001"
    using that W ix by (simp add: survivors_def writtenLot_def Let_def)
  have dropped: "index \<notin> set (survivors ?W)" if "?new \<le> 0.001"
    using that W by (simp add: survivors_def writtenLot_def Let_def)
  from lot amt entry nonneg kept dropped
    deductFromInventory_ledger [of ingId req rq lots ms uid]
    deductFromInventory_by_position [of ingId req rq lots ms uid]
  show ?thesis by blast
qed

theorem deduct_min_and_threshold_witness:
  "(\<lparr>userId = ''u'', ingredientId = ''X'', quantity = 1, measurementId = ''1''\<rparr>, 0, 0.99)
     \<in> set (deductedFrom ''X'' ''1'' 0.99
          [\<lparr>userId = ''u'', ingredientId = ''X'', quantity = 1, measurementId = ''1''\<rparr>]
          defaultMeasurements ''u'')
   \<and> updatedInventory (deductFinal ''X'' ''1'' 0.99
          [\<lparr>userId = ''u'', ingredientId = ''X'', quantity = 1, measurementId = ''1''\<rparr>]
          defaultMeasurements ''u'') ! 0
       = \<lparr>userId = ''u'', ingredientId = ''X'', quantity = 0.01, measurementId = ''1''\<rparr>
   \<and> deductFromInventory ''X'' ''1'' 0.99
          [\<lparr>userId = ''u'', ingredientId = ''X'', quantity = 1, measurementId = ''1''\<rparr>]
          defaultMeasurements ''u''
       = \<lparr>res_updatedInventory =
            [\<lparr>userId = ''u'', ingredientId = ''X'', quantity = 0.01, measurementId = ''1''\<rparr>],
          res_deducted = [\<lparr>d_measurementId = ''1'', d_quantity = 0.99\<rparr>]\<rparr>
   \<and> deductFromInventory ''X'' ''1'' 0.9995
          [\<lparr>userId = ''u'', ingredientId = ''X'', quantity = 1, measurementId = ''1''\<rparr>]
          defaultMeasurements ''u''
       = \<lparr>res_updatedInventory = [],
          res_deducted = [\<lparr>d_measurementId = ''1'', d_quantity = 0.9995\<rparr>]\<rparr>"
proof -
  let ?lot = "\<lparr>userId = ''u'', ingredientId = ''X'', quantity = 1, measurementId = ''1''\<rparr>"
  have e: "(?lot, 0, 0.99) \<in> set (deductedFrom ''X'' ''1'' 0.99 [?lot] defaultMeasurements ''u'')"
    by (simp add: deductedFrom_def sortedItems_def sortArray_compareItems relevantItems_one
        convert_same)
  have "(1::real) - min 1 0.99 > 0.001" by simp
  with deduct_min_and_threshold [OF e]
  have "updatedInventory (deductFinal ''X'' ''1'' 0.99 [?lot] defaultMeasurements ''u'') ! 0
       = ?lot\<lparr>quantity := 1 - min 1 0.99\<rparr>"
    by simp
  moreover have "deductFromInventory ''X'' ''1'' 0.99 [?lot] defaultMeasurements ''u''
       = \<lparr>res_updatedInventory =
            [\<lparr>userId = ''u'', ingredientId = ''X'', quantity = 0.01, measurementId = ''1''\<rparr>],
          res_deducted = [\<lparr>d_measurementId = ''1'', d_quantity = 0.99\<rparr>]\<rparr>"
    "deductFromInventory ''X'' ''1'' 0.9995 [?lot] defaultMeasurements ''u''
       = \<lparr>res_updatedInventory = [],
          res_deducted = [\<lparr>d_measurementId = ''1'', d_quantity = 0.9995\<rparr>]\<rparr>"
    by (simp_all add: deductFromInventory_def deductFinal_def sortedItems_def
        sortArray_compareItems relevantItems_one deductStep_def convert_same Let_def)
  ultimately show ?thesis using e by simp
qed

text \<open>
  C2 as stated fails at the threshold itself: a lot of \<open>0.002\<close> cup reduced by
  \<open>0.001\<close> has the new quantity \<open>0.001\<close>, which is not below \<open>0.001\<close>, and the lot is
  removed all the same, since the code keeps a lot only when \<^verbatim>\<open>newQuantity > 0.001\<close>.
  (The difference is \<open>0.001\<close> in IEEE double arithmetic as well: \<open>0.002\<close> is read as
  twice the double that \<open>0.001\<close> is read as.)
\<close>

theorem deduct_threshold_counterexample:
  "\<not> (0.002 - min 0.002 0.001 < (0.001::real))
   \<and> res_updatedInventory (deductFromInventory ''X'' ''1'' 0.001
        [\<lparr>userId = ''u'', ingredientId = ''X'', quantity = 0.002, measurementId = ''1''\<rparr>]
        defaultMeasurements ''u'') = []"
  by (simp add: deductFromInventory_def deductFinal_def sortedItems_def
      sortArray_compareItems relevantItems_one deductStep_def convert_same Let_def)

subsection \<open>Lots that are not deducted from\<close>

lemma convert_None_any_quantity:
  "convertMeasurement f t q ms = None \<Longrightarrow> convertMeasurement f t q' ms = None"
  by (auto simp: convertMeasurement_def split: if_splits option.splits)

lemma deductTrace_done:
  "remainingToDeduct s \<le> 0 \<Longrightarrow> deductTrace req ms items s = []"
  by (cases items) auto

lemma deductLoop_done:
  "remainingToDeduct s \<le> 0 \<Longrightarrow> deductLoop req ms items s = s"
  by (cases items) auto

lemma deductLoop_append:
  "deductLoop req ms (xs @ ys) s = deductLoop req ms ys (deductLoop req ms xs s)"
  by (induction req ms xs s rule: deductLoop.induct)
     (simp_all add: deductLoop_done split: option.splits)

lemma deductTrace_append:
  "deductTrace req ms (xs @ ys) s =
     deductTrace req ms xs s @ deductTrace req ms ys (deductLoop req ms xs s)"
  by (induction req ms xs s rule: deductLoop.induct)
     (simp_all add: deductTrace_done split: option.splits)

lemma deductFinal_untouched:
  "i \<notin> (\<lambda>e. fst (snd e)) ` set (deductedFrom ingId req rq lots ms uid) \<Longrightarrow>
     updatedInventory (deductFinal ingId req rq lots ms uid) ! i = lots ! i"
  unfolding deductedFrom_def deductFinal_def
  by (drule deductLoop_untouched) simp

lemma untouched_subseq:
  assumes len: "length W = length lots"
    and same: "\<And>i. i < length lots \<Longrightarrow> i \<notin> T \<Longrightarrow> W ! i = lots ! i"
    and nonneg: "\<forall>item \<in> set lots. 0 \<le> quantity item"
  shows "subseq (map ((!) lots) (filter (\<lambda>i. i \<notin> T) [0..<length lots]))
           (map ((!) W) (survivors W))"
proof -
  have keep: "quantity (W ! i) \<noteq> - 1" if "i < length lots" "i \<notin> T" for i
  proof -
    from that nonneg have "0 \<le> quantity (lots ! i)" by simp
    with same [OF that] show ?thesis by simp
  qed
  have "filter (\<lambda>i. i \<notin> T) [0..<length lots] = filter (\<lambda>i. i \<notin> T) (survivors W)"
    unfolding survivors_def len filter_filter
    by (rule filter_cong) (auto dest: keep)
  moreover have "map ((!) lots) (filter (\<lambda>i. i \<notin> T) [0..<length lots]) =
        map ((!) W) (filter (\<lambda>i. i \<notin> T) [0..<length lots])"
    by (rule map_cong) (auto simp: same)
  ultimately have "map ((!) lots) (filter (\<lambda>i. i \<notin> T) [0..<length lots]) =
        map ((!) W) (filter (\<lambda>i. i \<notin> T) (survivors W))"
    by simp
  then show ?thesis by (simp add: subseq_map)
qed

lemma later_lots_untouched:
  assumes split: "sortedItems ingId req lots uid = xs @ ys"
    and zero: "remainingToDeduct (deductLoop req ms xs
                 \<lparr>updatedInventory = lots, deducted = [], remainingToDeduct = rq\<rparr>) \<le> 0"
    and p: "p \<in> set ys"
  shows "snd p \<notin> (\<lambda>e. fst (snd e)) ` set (deductedFrom ingId req rq lots ms uid)"
proof
  let ?s = "\<lparr>updatedInventory = lots, deducted = [], remainingToDeduct = rq\<rparr>"
  assume "snd p \<in> (\<lambda>e. fst (snd e)) ` set (deductedFrom ingId req rq lots ms uid)"
  then obtain it a where "(it, snd p, a) \<in> set (deductTrace req ms (xs @ ys) ?s)"
    unfolding deductedFrom_def split by auto
  then have "(it, snd p, a) \<in> set (deductTrace req ms xs ?s)"
    by (simp add: deductTrace_append deductTrace_done [OF zero])
  then have "(it, snd p) \<in> set xs" by (rule deductTrace_subset)
  then have "snd p \<in> snd ` set xs" by (metis image_eqI snd_conv)
  moreover from p have "snd p \<in> snd ` set ys" by simp
  moreover have "distinct (map snd (xs @ ys))"
    using distinct_sortedItems [of ingId req lots uid] by (simp add: split)
  ultimately show False by auto
qed

text \<open>
  C3. On an inventory whose quantities are all non-negative, every position that the run
  does not deduct from holds the same lot in the working array at the end and is kept by
  the final filter; so the lots not deducted from, in inventory order, are a subsequence
  of the returned inventory. A lot is not deducted from when its user or ingredient
  differs from the arguments, when the required unit has no conversion path into its
  unit, or when it comes, in the processing order, after a point at which the remaining
  amount is zero or less.
\<close>

theorem untouched_lots_pass_through:
  assumes "\<forall>item \<in> set lots. 0 \<le> quantity item"
  shows
    "(\<forall>i < length lots.
        i \<notin> (\<lambda>e. fst (snd e)) ` set (deductedFrom ingId req rq lots ms uid) \<longrightarrow>
        updatedInventory (deductFinal ingId req rq lots ms uid) ! i = lots ! i
        \<and> i \<in> set (survivors (updatedInventory (deductFinal ingId req rq lots ms uid))))
     \<and> res_updatedInventory (deductFromInventory ingId req rq lots ms uid) =
         map ((!) (updatedInventory (deductFinal ingId req rq lots ms uid)))
           (survivors (updatedInventory (deductFinal ingId req rq lots ms uid)))
     \<and> subseq
         (map ((!) lots)
            (filter (\<lambda>i. i \<notin> (\<lambda>e. fst (snd e)) ` set (deductedFrom ingId req rq lots ms uid))
               [0..<length lots]))
         (res_updatedInventory (deductFromInventory ingId req rq lots ms uid))
     \<and> (\<forall>i < length lots.
          \<not> (userId (lots ! i) = uid \<and> ingredientId (lots ! i) = ingId) \<longrightarrow>
          i \<notin> (\<lambda>e. fst (snd e)) ` set (deductedFrom ingId req rq lots ms uid))
     \<and> (\<forall>i < length lots.
          convertMeasurement req (measurementId (lots ! i)) rq ms = None \<longrightarrow>
          i \<notin> (\<lambda>e. fst (snd e)) ` set (deductedFrom ingId req rq lots ms uid))
     \<and> (\<forall>xs ys p.
          sortedItems ingId req lots uid = xs @ ys \<longrightarrow>
          remainingToDeduct (deductLoop req ms xs
             \<lparr>updatedInventory = lots, deducted = [], remainingToDeduct = rq\<rparr>) \<le> 0 \<longrightarrow>
          p \<in> set ys \<longrightarrow>
          snd p \<notin> (\<lambda>e. fst (snd e)) ` set (deductedFrom ingId req rq lots ms uid))"
proof -
  let ?T = "(\<lambda>e. fst (snd e)) ` set (deductedFrom ingId req rq lots ms uid)"
  let ?W = "updatedInventory (deductFinal ingId req rq lots ms uid)"
  have same: "?W ! i = lots ! i" if "i \<notin> ?T" for i
    using that by (rule deductFinal_untouched)
  have kept: "i \<in> set (survivors ?W)" if "i < length lots" "i \<notin> ?T" for i
  proof -
    from that(1) assms have "0 \<le> quantity (lots ! i)" by simp
    with same [OF that(2)] that(1) show ?thesis
      by (simp add: survivors_def deductFinal_length)
  qed
  have sub: "subseq (map ((!) lots) (filter (\<lambda>i. i \<notin> ?T) [0..<length lots]))
      (res_updatedInventory (deductFromInventory ingId req rq lots ms uid))"
    unfolding deductFromInventory_by_position
    by (rule untouched_subseq) (simp_all add: deductFinal_length same assms)
  have other: "i \<notin> ?T"
    if "i < length lots" "\<not> (userId (lots ! i) = uid \<and> ingredientId (lots ! i) = ingId)" for i
  proof
    assume "i \<in> ?T"
    then obtain it a where "(it, i, a) \<in> set (deductedFrom ingId req rq lots ms uid)" by auto
    from deductedFrom_lot [OF this] that(2) show False by simp
  qed
  have nopath: "i \<notin> ?T"
    if "i < length lots" "convertMeasurement req (measurementId (lots ! i)) rq ms = None" for i
  proof
    assume "i \<in> ?T"
    then obtain it a where e: "(it, i, a) \<in> set (deductedFrom ingId req rq lots ms uid)" by auto
    from deductedFrom_lot [OF e] have it: "lots ! i = it" by simp
    from e obtain r where "convertMeasurement req (measurementId it) r ms = Some a"
      unfolding deductedFrom_def by (blast dest: deductTrace_amount)
    with convert_None_any_quantity [OF that(2), of r] it show False by simp
  qed
  from same kept sub other nopath later_lots_untouched [of ingId req lots uid _ _ ms rq]
    deductFromInventory_by_position [of ingId req rq lots ms uid]
  show ?thesis by blast
qed


theorem untouched_lots_pass_through_witness:
  "list_all (\<lambda>item. 0 \<le> quantity item)
     [\<lparr>userId = ''bob'', ingredientId = ''78'', quantity = 2, measurementId = ''1''\<rparr>,
      \<lparr>userId = ''alice'', ingredientId = ''78'', quantity = 3, measurementId = ''15''\<rparr>,
      \<lparr>userId = ''alice'', ingredientId = ''78'', quantity = 1, measurementId = ''1''\<rparr>,
      \<lparr>userId = ''alice'', ingredientId = ''78'', quantity = 500, measurementId = ''9''\<rparr>,
      \<lparr>userId = ''alice'', ingredientId = ''99'', quantity = 1, measurementId = ''1''\<rparr>]
   \<and> map (\<lambda>e. fst (snd e)) (deductedFrom ''78'' ''1'' 2
     [\<lparr>userId = ''bob'', ingredientId = ''78'', quantity = 2, measurementId = ''1''\<rparr>,
      \<lparr>userId = ''alice'', ingredientId = ''78'', quantity = 3, measurementId = ''15''\<rparr>,
      \<lparr>userId = ''alice'', ingredientId = ''78'', quantity = 1, measurementId = ''1''\<rparr>,
      \<lparr>userId = ''alice'', ingredientId = ''78'', quantity = 500, measurementId = ''9''\<rparr>,
      \<lparr>userId = ''alice'', ingredientId = ''99'', quantity = 1, measurementId = ''1''\<rparr>]
     defaultMeasurements ''alice'') = [2, 3]
   \<and> subseq
     [\<lparr>userId = ''bob'', ingredientId = ''78'', quantity = 2, measurementId = ''1''\<rparr>,
      \<lparr>userId = ''alice'', ingredientId = ''78'', quantity = 3, measurementId = ''15''\<rparr>,
      \<lparr>userId = ''alice'', ingredientId = ''99'', quantity = 1, measurementId = ''1''\<rparr>]
     (res_updatedInventory (deductFromInventory ''78'' ''1'' 2
     [\<lparr>userId = ''bob'', ingredientId = ''78'', quantity = 2, measurementId = ''1''\<rparr>,
      \<lparr>userId = ''alice'', ingredientId = ''78'', quantity = 3, measurementId = ''15''\<rparr>,
      \<lparr>userId = ''alice'', ingredientId = ''78'', quantity = 1, measurementId = ''1''\<rparr>,
      \<lparr>userId = ''alice'', ingredientId = ''78'', quantity = 500, measurementId = ''9''\<rparr>,
      \<lparr>userId = ''alice'', ingredientId = ''99'', quantity = 1, measurementId = ''1''\<rparr>]
     defaultMeasurements ''alice''))"
proof -
  let ?lots = "[\<lparr>userId = ''bob'', ingredientId = ''78'', quantity = 2, measurementId = ''1''\<rparr>,
      \<lparr>userId = ''alice'', ingredientId = ''78'', quantity = 3, measurementId = ''15''\<rparr>,
      \<lparr>userId = ''alice'', ingredientId = ''78'', quantity = 1, measurementId = ''1''\<rparr>,
      \<lparr>userId = ''alice'', ingredientId = ''78'', quantity = 500, measurementId = ''9''\<rparr>,
      \<lparr>userId = ''alice'', ingredientId = ''99'', quantity = 1, measurementId = ''1''\<rparr>]"
  have nonneg: "\<forall>item \<in> set ?lots. 0 \<le> quantity item" by simp
  have rel: "sortedItems ''78'' ''1'' ?lots ''alice'' =
      [(?lots ! 2, 2), (?lots ! 1, 1), (?lots ! 3, 3)]"
    by (simp add: sortedItems_def sortArray_compareItems relevantItems_def upt_conv_Cons)
  have c1: "convertMeasurement ''1'' ''15'' q defaultMeasurements = None" for q
    by (simp add: convertMeasurement_def defaultMeasurements_def meas_def conv_def)
  have c2: "convertMeasurement ''9'' ''1'' q defaultMeasurements = Some (q * 0.00422675)" for q
    by (simp add: convertMeasurement_def defaultMeasurements_def meas_def conv_def)
  have tr: "map (\<lambda>e. fst (snd e)) (deductedFrom ''78'' ''1'' 2 ?lots defaultMeasurements ''alice'')
      = [2, 3]"
    unfolding deductedFrom_def rel
    by (simp add: convert_same convert_defaults_cup_ml c1 c2 deductStep_def Let_def)
  have "(\<lambda>e. fst (snd e)) ` set (deductedFrom ''78'' ''1'' 2 ?lots defaultMeasurements ''alice'')
      = {2, 3}"
    using tr by (metis (no_types, lifting) list.set(1) list.set(2) set_map)
  with untouched_lots_pass_through
    [OF nonneg, of "''78''" "''1''" 2 defaultMeasurements "''alice''",
      THEN conjunct2, THEN conjunct2, THEN conjunct1]
  have "subseq (map ((!) ?lots) (filter (\<lambda>i. i \<notin> {2, 3}) [0..<length ?lots]))
      (res_updatedInventory (deductFromInventory ''78'' ''1'' 2 ?lots defaultMeasurements ''alice''))"
    by (simp only:)
  moreover have "filter (\<lambda>i. i \<notin> {2, 3}) [0..<length ?lots] = [0, 1, 4::nat]"
    by (simp add: upt_conv_Cons)
  ultimately show ?thesis using tr by simp
qed

subsection \<open>Under-deduction\<close>

text \<open>
  C4. \<^const>\<open>deductFromInventory\<close> has no error result: every call returns an inventory
  and a ledger, and the amount still missing when the loop ends is not part of what is
  returned. One cup in stock gives the same result for a requirement of one cup and of
  two cups, although the second run ends with one cup missing. When a lot is deducted
  from and its unit has no conversion path back into the required unit, the pass writes
  the reduced (or marked) lot, enters \<open>{unit, toDeduct}\<close> in the ledger and leaves the
  remaining amount as it was, and the loop goes on with that state.
\<close>

theorem deduct_silent_under_deduction:
  "(0 < remainingToDeduct s \<longrightarrow>
    convertMeasurement req (measurementId item) (remainingToDeduct s) ms = Some amount \<longrightarrow>
    convertMeasurement (measurementId item) req (min (quantity item) amount) ms = None \<longrightarrow>
      deductLoop req ms ((item, index) # rest) s =
        deductLoop req ms rest
          \<lparr>updatedInventory =
             (updatedInventory s)
               [index := if quantity item - min (quantity item) amount > 0.001
                         then item\<lparr>quantity := quantity item - min (quantity item) amount\<rparr>
                         else item\<lparr>quantity := - 1\<rparr>],
           deducted = deducted s @
             [\<lparr>d_measurementId = measurementId item,
               d_quantity = min (quantity item) amount\<rparr>],
           remainingToDeduct = remainingToDeduct s\<rparr>)
   \<and> deductFromInventory ingId req rq lots ms uid =
       \<lparr>res_updatedInventory =
          filter (\<lambda>item. quantity item \<noteq> - 1)
            (updatedInventory (deductFinal ingId req rq lots ms uid)),
        res_deducted = map ledgerEntry (deductedFrom ingId req rq lots ms uid)\<rparr>
   \<and> remainingToDeduct (deductFinal ''X'' ''1'' 2
        [\<lparr>userId = ''u'', ingredientId = ''X'', quantity = 1, measurementId = ''1''\<rparr>]
        defaultMeasurements ''u'') = 1
   \<and> remainingToDeduct (deductFinal ''X'' ''1'' 1
        [\<lparr>userId = ''u'', ingredientId = ''X'', quantity = 1, measurementId = ''1''\<rparr>]
        defaultMeasurements ''u'') = 0
   \<and> deductFromInventory ''X'' ''1'' 2
        [\<lparr>userId = ''u'', ingredientId = ''X'', quantity = 1, measurementId = ''1''\<rparr>]
        defaultMeasurements ''u''
      = \<lparr>res_updatedInventory = [],
         res_deducted = [\<lparr>d_measurementId = ''1'', d_quantity = 1\<rparr>]\<rparr>
   \<and> deductFromInventory ''X'' ''1'' 1
        [\<lparr>userId = ''u'', ingredientId = ''X'', quantity = 1, measurementId = ''1''\<rparr>]
        defaultMeasurements ''u''
      = \<lparr>res_updatedInventory = [],
         res_deducted = [\<lparr>d_measurementId = ''1'', d_quantity = 1\<rparr>]\<rparr>"
proof -
  have step: "deductLoop req ms ((item, index) # rest) s =
        deductLoop req ms rest
          \<lparr>updatedInventory =
             (updatedInventory s)
               [index := if quantity item - min (quantity item) amount > 0.001
                         then item\<lparr>quantity := quantity item - min (quantity item) amount\<rparr>
                         else item\<lparr>quantity := - 1\<rparr>],
           deducted = deducted s @
             [\<lparr>d_measurementId = measurementId item,
               d_quantity = min (quantity item) amount\<rparr>],
           remainingToDeduct = remainingToDeduct s\<rparr>"
    if "0 < remainingToDeduct s"
      "convertMeasurement req (measurementId item) (remainingToDeduct s) ms = Some amount"
      "convertMeasurement (measurementId item) req (min (quantity item) amount) ms = None"
  proof -
    have "deductStep req ms item index amount s =
        \<lparr>updatedInventory = (updatedInventory s)[index := writtenLot item amount],
         deducted = deducted s @ [ledgerEntry (item, index, amount)],
         remainingToDeduct = remainingToDeduct s\<rparr>"
      using that(3) by (simp add: deductStep_simps)
    with that(1,2) show ?thesis
      by (simp add: writtenLot_def ledgerEntry_def Let_def)
  qed
  have shape: "deductFromInventory ingId req rq lots ms uid =
       \<lparr>res_updatedInventory =
          filter (\<lambda>item. quantity item \<noteq> - 1)
            (updatedInventory (deductFinal ingId req rq lots ms uid)),
        res_deducted = map ledgerEntry (deductedFrom ingId req rq lots ms uid)\<rparr>"
    using deductFromInventory_ledger [of ingId req rq lots ms uid]
    by (simp add: deductFromInventory_def Let_def)
  have ex: "remainingToDeduct (deductFinal ''X'' ''1'' 2
        [\<lparr>userId = ''u'', ingredientId = ''X'', quantity = 1, measurementId = ''1''\<rparr>]
        defaultMeasurements ''u'') = 1"
    "remainingToDeduct (deductFinal ''X'' ''1'' 1
        [\<lparr>userId = ''u'', ingredientId = ''X'', quantity = 1, measurementId = ''1''\<rparr>]
        defaultMeasurements ''u'') = 0"
    "deductFromInventory ''X'' ''1'' 2
        [\<lparr>userId = ''u'', ingredientId = ''X'', quantity = 1, measurementId = ''1''\<rparr>]
        defaultMeasurements ''u''
      = \<lparr>res_updatedInventory = [],
         res_deducted = [\<lparr>d_measurementId = ''1'', d_quantity = 1\<rparr>]\<rparr>"
    "deductFromInventory ''X'' ''1'' 1
        [\<lparr>userId = ''u'', ingredientId = ''X'', quantity = 1, measurementId = ''1''\<rparr>]
        defaultMeasurements ''u''
      = \<lparr>res_updatedInventory = [],
         res_deducted = [\<lparr>d_measurementId = ''1'', d_quantity = 1\<rparr>]\<rparr>"
    by (simp_all add: deductFromInventory_def deductFinal_def sortedItems_def
        sortArray_compareItems relevantItems_one deductStep_def convert_same Let_def)
  from step shape ex show ?thesis by blast
qed

text \<open>
  The witness is a conversion table with the edge cup \<open>\<rightarrow>\<close> ml only: one cup is
  required, 500 ml are in stock, 236.588 ml are deducted and entered in the ledger, and
  the run still ends with one cup missing.
\<close>

theorem deduct_silent_under_deduction_witness:
  "convertMeasurement ''1'' ''9'' 1 [meas ''1'' ''cup'' [conv ''9'' 236.588]] = Some 236.588
   \<and> convertMeasurement ''9'' ''1'' (min 500 236.588) [meas ''1'' ''cup'' [conv ''9'' 236.588]]
       = None
   \<and> deductFinal ''X'' ''1'' 1
        [\<lparr>userId = ''u'', ingredientId = ''X'', quantity = 500, measurementId = ''9''\<rparr>]
        [meas ''1'' ''cup'' [conv ''9'' 236.588]] ''u''
      = \<lparr>updatedInventory =
           [\<lparr>userId = ''u'', ingredientId = ''X'', quantity = 263.412, measurementId = ''9''\<rparr>],
         deducted = [\<lparr>d_measurementId = ''9'', d_quantity = 236.588\<rparr>],
         remainingToDeduct = 1\<rparr>"
proof -
  let ?ms = "[meas ''1'' ''cup'' [conv ''9'' 236.588]]"
  let ?lot = "\<lparr>userId = ''u'', ingredientId = ''X'', quantity = 500, measurementId = ''9''\<rparr>"
  let ?s = "\<lparr>updatedInventory = [?lot], deducted = [], remainingToDeduct = 1\<rparr>"
  have fwd: "convertMeasurement ''1'' (measurementId ?lot) (remainingToDeduct ?s) ?ms
      = Some 236.588"
    by (simp add: convertMeasurement_def meas_def conv_def)
  have bwd: "convertMeasurement (measurementId ?lot) ''1'' (min (quantity ?lot) 236.588) ?ms
      = None"
    by (simp add: convertMeasurement_def meas_def conv_def)
  have pos: "0 < remainingToDeduct ?s" by simp
  have "deductLoop ''1'' ?ms [(?lot, 0)] ?s =
      deductLoop ''1'' ?ms []
          \<lparr>updatedInventory =
             (updatedInventory ?s)
               [0 := if quantity ?lot - min (quantity ?lot) 236.588 > 0.001
                         then ?lot\<lparr>quantity := quantity ?lot - min (quantity ?lot) 236.588\<rparr>
                         else ?lot\<lparr>quantity := - 1\<rparr>],
           deducted = deducted ?s @
             [\<lparr>d_measurementId = measurementId ?lot,
               d_quantity = min (quantity ?lot) 236.588\<rparr>],
           remainingToDeduct = remainingToDeduct ?s\<rparr>"
    using deduct_silent_under_deduction
      [where s = ?s and req = "''1''" and item = ?lot and ms = ?ms and amount = "236.588"
         and index = 0 and rest = "[]", THEN conjunct1] pos fwd bwd
    by blast
  then have "deductFinal ''X'' ''1'' 1 [?lot] ?ms ''u''
      = \<lparr>updatedInventory =
           [\<lparr>userId = ''u'', ingredientId = ''X'', quantity = 263.412, measurementId = ''9''\<rparr>],
         deducted = [\<lparr>d_measurementId = ''9'', d_quantity = 236.588\<rparr>],
         remainingToDeduct = 1\<rparr>"
    by (simp add: deductFinal_def sortedItems_def sortArray_compareItems relevantItems_one)
  with fwd bwd show ?thesis by simp
qed


subsection \<open>Whose lots are counted and whose are deducted\<close>

lemma getTotal_owner_irrelevant:
  "getTotalInventoryInUnit ingId t (map (\<lambda>item. item\<lparr>userId := owner item\<rparr>) lots) ms =
     getTotalInventoryInUnit ingId t lots ms"
  by (simp add: getTotalInventoryInUnit_def totalLoop_sum filter_map comp_def)

text \<open>
  C10. The sufficiency check does not look at the owner of a lot: giving the lots any
  other owners changes neither the total nor the answer of \<^const>\<open>hasEnoughInventory\<close>.
  The deduction selects lots of the given user only. So for an inventory that holds two
  cups of flour owned by bob, the check for a requirement of one cup answers that there
  is enough, while the deduction for alice deducts nothing, returns bob's lot as it was
  and ends with the whole cup missing.
\<close>

theorem sufficiency_not_user_scoped:
  "getTotalInventoryInUnit ingId t (map (\<lambda>item. item\<lparr>userId := owner item\<rparr>) lots) ms =
     getTotalInventoryInUnit ingId t lots ms
   \<and> hasEnoughInventory ingId t rq (map (\<lambda>item. item\<lparr>userId := owner item\<rparr>) lots) ms =
     hasEnoughInventory ingId t rq lots ms
   \<and> (\<forall>p \<in> set (sortedItems ingId t lots uid). userId (fst p) = uid)
   \<and> (\<forall>e \<in> set (deductedFrom ingId t rq lots ms uid). userId (fst e) = uid)
   \<and> hasEnoughInventory ''78'' ''1'' 1
        [\<lparr>userId = ''bob'', ingredientId = ''78'', quantity = 2, measurementId = ''1''\<rparr>]
        defaultMeasurements
      = \<lparr>hasEnough = True, available = 2\<rparr>
   \<and> deductFinal ''78'' ''1'' 1
        [\<lparr>userId = ''bob'', ingredientId = ''78'', quantity = 2, measurementId = ''1''\<rparr>]
        defaultMeasurements ''alice''
      = \<lparr>updatedInventory =
           [\<lparr>userId = ''bob'', ingredientId = ''78'', quantity = 2, measurementId = ''1''\<rparr>],
         deducted = [], remainingToDeduct = 1\<rparr>
   \<and> deductFromInventory ''78'' ''1'' 1
        [\<lparr>userId = ''bob'', ingredientId = ''78'', quantity = 2, measurementId = ''1''\<rparr>]
        defaultMeasurements ''alice''
      = \<lparr>res_updatedInventory =
           [\<lparr>userId = ''bob'', ingredientId = ''78'', quantity = 2, measurementId = ''1''\<rparr>],
         res_deducted = []\<rparr>"
proof -
  have sel: "\<forall>p \<in> set (sortedItems ingId t lots uid). userId (fst p) = uid"
    using sortedItems_iff [of _ _ ingId t lots uid] by auto
  have ded: "\<forall>e \<in> set (deductedFrom ingId t rq lots ms uid). userId (fst e) = uid"
    using deductedFrom_lot [of _ _ _ ingId t rq lots ms uid] by auto
  have chk: "hasEnoughInventory ingId t rq (map (\<lambda>item. item\<lparr>userId := owner item\<rparr>) lots) ms =
     hasEnoughInventory ingId t rq lots ms"
    by (simp add: hasEnoughInventory_def getTotal_owner_irrelevant)
  have ex: "hasEnoughInventory ''78'' ''1'' 1
        [\<lparr>userId = ''bob'', ingredientId = ''78'', quantity = 2, measurementId = ''1''\<rparr>]
        defaultMeasurements
      = \<lparr>hasEnough = True, available = 2\<rparr>"
    "deductFinal ''78'' ''1'' 1
        [\<lparr>userId = ''bob'', ingredientId = ''78'', quantity = 2, measurementId = ''1''\<rparr>]
        defaultMeasurements ''alice''
      = \<lparr>updatedInventory =
           [\<lparr>userId = ''bob'', ingredientId = ''78'', quantity = 2, measurementId = ''1''\<rparr>],
         deducted = [], remainingToDeduct = 1\<rparr>"
    "deductFromInventory ''78'' ''1'' 1
        [\<lparr>userId = ''bob'', ingredientId = ''78'', quantity = 2, measurementId = ''1''\<rparr>]
        defaultMeasurements ''alice''
      = \<lparr>res_updatedInventory =
           [\<lparr>userId = ''bob'', ingredientId = ''78'', quantity = 2, measurementId = ''1''\<rparr>],
         res_deducted = []\<rparr>"
    by (simp_all add: hasEnoughInventory_def getTotalInventoryInUnit_def convert_same
        deductFromInventory_def deductFinal_def sortedItems_def sortArray_compareItems
        relevantItems_one Let_def)
  from getTotal_owner_irrelevant [of ingId t owner lots ms] chk sel ded ex
  show ?thesis by blast
qed

theorem sufficiency_not_user_scoped_witness:
  "(\<lparr>userId = ''alice'', ingredientId = ''78'', quantity = 1, measurementId = ''1''\<rparr>, 1, 1)
     \<in> set (deductedFrom ''78'' ''1'' 1
          [\<lparr>userId = ''bob'', ingredientId = ''78'', quantity = 2, measurementId = ''1''\<rparr>,
           \<lparr>userId = ''alice'', ingredientId = ''78'', quantity = 1, measurementId = ''1''\<rparr>]
          defaultMeasurements ''alice'')
   \<and> userId (fst (\<lparr>userId = ''alice'', ingredientId = ''78'', quantity = 1,
                    measurementId = ''1''\<rparr>, 1::nat, 1::real)) = ''alice''
   \<and> deductedFrom ''78'' ''1'' 1
          [\<lparr>userId = ''bob'', ingredientId = ''78'', quantity = 2, measurementId = ''1''\<rparr>,
           \<lparr>userId = ''alice'', ingredientId = ''78'', quantity = 1, measurementId = ''1''\<rparr>]
          defaultMeasurements ''alice''
      = [(\<lparr>userId = ''alice'', ingredientId = ''78'', quantity = 1, measurementId = ''1''\<rparr>,
          1, 1)]"
proof -
  let ?lots = "[\<lparr>userId = ''bob'', ingredientId = ''78'', quantity = 2, measurementId = ''1''\<rparr>,
           \<lparr>userId = ''alice'', ingredientId = ''78'', quantity = 1, measurementId = ''1''\<rparr>]"
  have tr: "deductedFrom ''78'' ''1'' 1 ?lots defaultMeasurements ''alice''
      = [(\<lparr>userId = ''alice'', ingredientId = ''78'', quantity = 1, measurementId = ''1''\<rparr>,
          1, 1)]"
    by (simp add: deductedFrom_def sortedItems_def sortArray_compareItems relevantItems_two
        convert_same deductStep_def Let_def)
  then have e: "(\<lparr>userId = ''alice'', ingredientId = ''78'', quantity = 1, measurementId = ''1''\<rparr>,
      1, 1) \<in> set (deductedFrom ''78'' ''1'' 1 ?lots defaultMeasurements ''alice'')"
    by simp
  have every: "\<forall>e \<in> set (deductedFrom ''78'' ''1'' 1 ?lots defaultMeasurements ''alice'').
      userId (fst e) = ''alice''"
    using sufficiency_not_user_scoped
      [where ingId = "''78''" and t = "''1''" and rq = 1 and lots = ?lots
         and ms = defaultMeasurements and uid = "''alice''"]
    by blast
  from every e
  have u: "userId (fst (\<lparr>userId = ''alice'', ingredientId = ''78'', quantity = 1,
                    measurementId = ''1''\<rparr>, 1::nat, 1::real)) = ''alice''"
    by (rule bspec)
  show ?thesis by (rule conjI [OF e conjI [OF u tr]])
qed

section \<open>Properties of the cooking sessions\<close>

lemma find_None_set: "find P xs = None \<longleftrightarrow> (\<forall>x \<in> set xs. \<not> P x)"
  by (induction xs) auto

lemma find_Some_set: "find P xs = Some x \<Longrightarrow> x \<in> set xs \<and> P x"
  by (induction xs) (auto split: if_splits)

lemma active_after_closing:
  "filter (\<lambda>s. status s = Active)
     (map (\<lambda>s. if s_id s = sid then s\<lparr>status := st\<rparr> else s) ss) =
   filter (\<lambda>s. s_id s \<noteq> sid) (filter (\<lambda>s. status s = Active) ss)"
  if "st \<noteq> Active"
  using that by (induction ss) auto

lemma oneActivePerPair_closing:
  assumes "oneActivePerPair ss" "st \<noteq> Active"
  shows "oneActivePerPair (map (\<lambda>s. if s_id s = sid then s\<lparr>status := st\<rparr> else s) ss)"
proof -
  from assms(1) have "distinct (map (\<lambda>s. (recipeId s, s_userId s))
      (filter (\<lambda>s. s_id s \<noteq> sid) (filter (\<lambda>s. status s = Active) ss)))"
    unfolding oneActivePerPair_def by (rule distinct_map_filter)
  then show ?thesis
    unfolding oneActivePerPair_def by (simp only: active_after_closing [OF assms(2)])
qed

lemma oneActivePerPair_update:
  assumes "oneActivePerPair ss" "keepsIdentity session ss"
  shows "oneActivePerPair (map (\<lambda>s. if s_id s = s_id session then session else s) ss)"
proof -
  have "map (\<lambda>s. (recipeId s, s_userId s))
          (filter (\<lambda>s. status s = Active)
             (map (\<lambda>s. if s_id s = s_id session then session else s) ss)) =
        map (\<lambda>s. (recipeId s, s_userId s)) (filter (\<lambda>s. status s = Active) ss)"
    using assms(2) unfolding keepsIdentity_def by (induction ss) auto
  with assms(1) show ?thesis by (simp add: oneActivePerPair_def)
qed

lemma oneActivePerPair_start:
  assumes "oneActivePerPair ss"
    and "find (activeFor (Some rid) uid) ss = None"
  shows "oneActivePerPair
           (ss @ [\<lparr>s_id = newId, recipeId = rid, s_userId = uid, ingredientsChecked = [],
                   stepsChecked = [], servingSize = n, status = Active\<rparr>])"
proof -
  from assms(2) have "\<forall>s \<in> set ss. \<not> activeFor (Some rid) uid s"
    by (simp add: find_None_set)
  then have "(rid, uid) \<notin> (\<lambda>s. (recipeId s, s_userId s)) ` set (filter (\<lambda>s. status s = Active) ss)"
    by (auto simp: activeFor_def)
  with assms(1) show ?thesis by (simp add: oneActivePerPair_def)
qed

lemma sessions_handleStartCooking:
  "cookingSessions (handleStartCooking newId rid d) =
     (case find (\<lambda>r. r_id r = rid) (recipes d) of
        None \<Rightarrow> cookingSessions d
      | Some recipe \<Rightarrow>
          (case find (activeFor (Some rid) (currentUserId d)) (cookingSessions d) of
             None \<Rightarrow> cookingSessions d @
                 [\<lparr>s_id = newId, recipeId = rid, s_userId = currentUserId d,
                   ingredientsChecked = [], stepsChecked = [],
                   servingSize = servings recipe, status = Active\<rparr>]
           | Some existingSession \<Rightarrow> cookingSessions d))"
  by (simp add: handleStartCooking_def split: option.splits)

lemma sessions_handleCompleteCooking:
  "cookingSessions (handleCompleteCooking d) = cookingSessions d \<or>
   (\<exists>sid. cookingSessions (handleCompleteCooking d) =
      map (\<lambda>s. if s_id s = sid then s\<lparr>status := Completed\<rparr> else s) (cookingSessions d))"
  by (auto simp: handleCompleteCooking_def Let_def split: option.splits)

lemma sessions_handleCancelCooking:
  "cookingSessions (handleCancelCooking d) = cookingSessions d \<or>
   (\<exists>sid. cookingSessions (handleCancelCooking d) =
      map (\<lambda>s. if s_id s = sid then s\<lparr>status := Cancelled\<rparr> else s) (cookingSessions d))"
  by (auto simp: handleCancelCooking_def split: option.splits)

lemma reachable_oneActivePerPair:
  "reachable d \<Longrightarrow> oneActivePerPair (cookingSessions d)"
proof (induction rule: reachable.induct)
  case (init d)
  then show ?case by (simp add: oneActivePerPair_def)
next
  case (start d newId rid)
  then show ?case
    by (auto simp: sessions_handleStartCooking oneActivePerPair_start split: option.splits)
next
  case (update d session)
  then show ?case
    by (simp add: handleUpdateCookingSession_def oneActivePerPair_update)
next
  case (complete d)
  with sessions_handleCompleteCooking [of d] show ?case
    by (auto simp: oneActivePerPair_closing)
next
  case (cancel d)
  with sessions_handleCancelCooking [of d] show ?case
    by (auto simp: oneActivePerPair_closing)
next
  case (switchUser d u)
  then show ?case by simp
qed


lemma oneActivePerPair_count:
  "oneActivePerPair ss \<longleftrightarrow>
     (\<forall>rid uid. length (filter (activeFor (Some rid) uid) ss) \<le> 1)"
proof -
  have key: "distinct (map f xs) \<longleftrightarrow> (\<forall>k. length (filter (\<lambda>x. f x = k) xs) \<le> 1)"
    for f :: "CookingSession \<Rightarrow> string \<times> string option" and xs
  proof (induction xs)
    case Nil
    show ?case by simp
  next
    case (Cons x xs)
    have "f x \<notin> f ` set xs \<longleftrightarrow> length (filter (\<lambda>y. f y = f x) xs) = 0"
      by (simp add: filter_empty_conv) (metis image_iff)
    moreover have "(\<forall>k. length (filter (\<lambda>y. f y = k) (x # xs)) \<le> 1) \<longleftrightarrow>
        length (filter (\<lambda>y. f y = f x) xs) = 0 \<and> (\<forall>k. length (filter (\<lambda>y. f y = k) xs) \<le> 1)"
      (is "?L \<longleftrightarrow> ?A \<and> ?B")
    proof
      assume l: ?L
      from l [rule_format, of "f x"] have ?A by simp
      moreover have ?B
      proof
        fix k
        from l [rule_format, of k] show "length (filter (\<lambda>y. f y = k) xs) \<le> 1"
          by (simp split: if_splits)
      qed
      ultimately show "?A \<and> ?B" ..
    next
      assume "?A \<and> ?B"
      then show ?L by auto
    qed
    ultimately show ?case using Cons by simp
  qed
  have "filter (activeFor (Some rid) uid) ss =
      filter (\<lambda>s. (recipeId s, s_userId s) = (rid, uid)) (filter (\<lambda>s. status s = Active) ss)"
    for rid uid
    by (auto simp: activeFor_def intro: filter_cong)
  then show ?thesis
    unfolding oneActivePerPair_def key by auto
qed

text \<open>
  C6. Starting to cook a recipe for which the current user has an active session adds
  no session and leaves every stored session, with its checklists and its serving
  size, as it was. So in every state reached from a state without sessions by start,
  update, complete and cancel (and a change of the current user), the updates being
  those that \<^verbatim>\<open>CookMode\<close> issues, which keep the recipe, the user and the status of
  the stored session, there is at most one active session for every pair of a recipe
  and a user.
\<close>

theorem start_resumes_single_active:
  "((\<exists>s \<in> set (cookingSessions d).
        recipeId s = rid \<and> s_userId s = currentUserId d \<and> status s = Active) \<longrightarrow>
      cookingSessions (handleStartCooking newId rid d) = cookingSessions d)
   \<and> (reachable d \<longrightarrow>
        (\<forall>r u. length (filter (activeFor (Some r) u) (cookingSessions d)) \<le> 1))"
proof -
  have resume: "cookingSessions (handleStartCooking newId rid d) = cookingSessions d"
    if "\<exists>s \<in> set (cookingSessions d).
        recipeId s = rid \<and> s_userId s = currentUserId d \<and> status s = Active"
  proof -
    from that have "find (activeFor (Some rid) (currentUserId d)) (cookingSessions d) \<noteq> None"
      by (auto simp: find_None_set activeFor_def)
    then show ?thesis
      by (auto simp: sessions_handleStartCooking split: option.splits)
  qed
  have single: "\<forall>r u. length (filter (activeFor (Some r) u) (cookingSessions d)) \<le> 1"
    if "reachable d"
    using reachable_oneActivePerPair [OF that] by (simp add: oneActivePerPair_count)
  from resume single show ?thesis by blast
qed


lemma example_started:
  "handleStartCooking ''a'' ''r'' exampleState =
     exampleState\<lparr>cookingSessions := [sessionA], selectedRecipeId := Some ''r'',
                  currentView := V_cook_mode\<rparr>"
  by (simp add: handleStartCooking_def exampleState_def flourRecipe_def sessionA_def)

lemma example_updated:
  "handleUpdateCookingSession sessionA_halved (handleStartCooking ''a'' ''r'' exampleState) =
     exampleState\<lparr>cookingSessions := [sessionA_halved], selectedRecipeId := Some ''r'',
                  currentView := V_cook_mode\<rparr>"
  unfolding example_started
  by (simp add: handleUpdateCookingSession_def sessionA_halved_def sessionA_def)

lemma example_keepsIdentity:
  "keepsIdentity sessionA_halved
     (cookingSessions (handleStartCooking ''a'' ''r'' exampleState))"
  unfolding example_started
  by (simp add: keepsIdentity_def sessionA_halved_def)

lemma example_deduction:
  "deductIngredients defaultMeasurements ''u'' k (ingredients flourRecipe) (inventory exampleState) =
     res_updatedInventory (deductFromInventory ''78'' ''1'' (2 * k)
        [\<lparr>userId = ''u'', ingredientId = ''78'', quantity = 1, measurementId = ''1''\<rparr>]
        defaultMeasurements ''u'')"
  by (simp add: flourRecipe_def exampleState_def)

lemma example_deduct_one_cup:
  "deductFromInventory ''78'' ''1'' q
        [\<lparr>userId = ''u'', ingredientId = ''78'', quantity = 1, measurementId = ''1''\<rparr>]
        defaultMeasurements ''u'' =
     \<lparr>res_updatedInventory = [], res_deducted = [\<lparr>d_measurementId = ''1'', d_quantity = 1\<rparr>]\<rparr>"
  if "1 \<le> q"
  using that
  by (simp add: deductFromInventory_def deductFinal_def sortedItems_def
      sortArray_compareItems relevantItems_one deductStep_def convert_same Let_def)

lemma example_completed:
  "handleCompleteCooking
     (handleUpdateCookingSession sessionA_halved (handleStartCooking ''a'' ''r'' exampleState)) =
     exampleState\<lparr>recipes := [flourRecipe\<lparr>cookCount := 1\<rparr>], inventory := [],
                  cookingSessions := [sessionA_halved\<lparr>status := Completed\<rparr>],
                  selectedRecipeId := Some ''r'', currentView := V_recipes\<rparr>"
proof -
  have r: "r_id flourRecipe = ''r''" "servings flourRecipe = 4" "cookCount flourRecipe = 0"
    by (simp_all add: flourRecipe_def)
  have s: "servingSize sessionA_halved = 2" "activeFor (Some ''r'') (Some ''u'') sessionA_halved"
    by (simp_all add: sessionA_halved_def sessionA_def activeFor_def)
  have e: "recipes exampleState = [flourRecipe]" "measurements exampleState = defaultMeasurements"
    "currentUserId exampleState = Some ''u''"
    by (simp_all add: exampleState_def)
  show ?thesis
    unfolding example_updated handleCompleteCooking_def
    by (simp add: r s e example_deduction example_deduct_one_cup Let_def)
qed

lemma example_restarted:
  "handleStartCooking ''b'' ''r''
     (handleCompleteCooking
        (handleUpdateCookingSession sessionA_halved
           (handleStartCooking ''a'' ''r'' exampleState))) =
     exampleState\<lparr>recipes := [flourRecipe\<lparr>cookCount := 1\<rparr>], inventory := [],
                  cookingSessions := [sessionA_halved\<lparr>status := Completed\<rparr>, sessionB],
                  selectedRecipeId := Some ''r'', currentView := V_cook_mode\<rparr>"
  unfolding example_completed
  by (simp add: handleStartCooking_def exampleState_def flourRecipe_def sessionA_halved_def
      sessionA_def sessionB_def activeFor_def)

theorem start_resumes_single_active_witness:
  "cookingSessions
     (handleStartCooking ''b'' ''r'' (handleStartCooking ''a'' ''r'' exampleState)) = [sessionA]
   \<and> cookingSessions
       (handleStartCooking ''b'' ''r''
          (handleCompleteCooking
             (handleUpdateCookingSession sessionA_halved
                (handleStartCooking ''a'' ''r'' exampleState))))
      = [sessionA_halved\<lparr>status := Completed\<rparr>, sessionB]
   \<and> length (filter (activeFor (Some ''r'') (Some ''u''))
        (cookingSessions
          (handleStartCooking ''b'' ''r''
             (handleCompleteCooking
                (handleUpdateCookingSession sessionA_halved
                   (handleStartCooking ''a'' ''r'' exampleState)))))) \<le> 1"
proof -
  let ?d1 = "handleStartCooking ''a'' ''r'' exampleState"
  let ?d4 = "handleStartCooking ''b'' ''r''
     (handleCompleteCooking (handleUpdateCookingSession sessionA_halved ?d1))"
  have "\<exists>s \<in> set (cookingSessions ?d1).
      recipeId s = ''r'' \<and> s_userId s = currentUserId ?d1 \<and> status s = Active"
    unfolding example_started by (simp add: sessionA_def exampleState_def)
  with start_resumes_single_active [of ?d1 "''r''" "''b''"]
  have "cookingSessions (handleStartCooking ''b'' ''r'' ?d1) = cookingSessions ?d1"
    by blast
  then have w1: "cookingSessions (handleStartCooking ''b'' ''r'' ?d1) = [sessionA]"
    by (simp add: example_started)
  have "reachable exampleState"
    by (rule reachable.init) (simp add: exampleState_def)
  then have "reachable ?d1" by (rule reachable.start)
  then have "reachable (handleUpdateCookingSession sessionA_halved ?d1)"
    using example_keepsIdentity by (rule reachable.update)
  then have "reachable ?d4"
    by (intro reachable.start reachable.complete)
  with start_resumes_single_active [of ?d4]
  have "\<forall>r u. length (filter (activeFor (Some r) u) (cookingSessions ?d4)) \<le> 1"
    by blast
  then have w3: "length (filter (activeFor (Some ''r'') (Some ''u'')) (cookingSessions ?d4)) \<le> 1"
    by blast
  have w2: "cookingSessions ?d4 = [sessionA_halved\<lparr>status := Completed\<rparr>, sessionB]"
    by (simp add: example_restarted)
  show ?thesis by (rule conjI [OF w1 conjI [OF w2 w3]])
qed

subsection \<open>Completing and cancelling\<close>

lemma deductIngredients_foldl:
  "deductIngredients ms uid k ings lots =
     foldl (\<lambda>lots ing.
              res_updatedInventory
                (deductFromInventory (ri_ingredientId ing) (ri_measurementId ing)
                   (ri_quantity ing * k) lots ms uid))
       lots ings"
  by (induction ings arbitrary: lots) simp_all

lemma handleCompleteCooking_active:
  assumes "find (activeFor (selectedRecipeId d) (currentUserId d)) (cookingSessions d)
             = Some session"
    and "find (\<lambda>r. Some (r_id r) = selectedRecipeId d) (recipes d) = Some recipe"
    and "currentUserId d = Some uid" and "uid \<noteq> []"
  shows "handleCompleteCooking d =
     d\<lparr>cookingSessions :=
          map (\<lambda>s. if s_id s = s_id session then s\<lparr>status := Completed\<rparr> else s)
            (cookingSessions d),
        recipes :=
          map (\<lambda>r. if Some (r_id r) = selectedRecipeId d
                    then r\<lparr>cookCount := cookCount r + 1\<rparr> else r) (recipes d),
        inventory :=
          deductIngredients (measurements d) uid (servingSize session / servings recipe)
            (ingredients recipe) (inventory d),
        currentView := V_recipes\<rparr>"
  using assms by (simp add: handleCompleteCooking_def Let_def)

lemma handleCompleteCooking_inactive:
  "find (activeFor (selectedRecipeId d) (currentUserId d)) (cookingSessions d) = None \<Longrightarrow>
     handleCompleteCooking d = d\<lparr>currentView := V_recipes\<rparr>"
  by (simp add: handleCompleteCooking_def)

lemma handleCancelCooking_inactive:
  "find (activeFor (selectedRecipeId d) (currentUserId d)) (cookingSessions d) = None \<Longrightarrow>
     handleCancelCooking d = d\<lparr>currentView := V_recipes\<rparr>"
  by (simp add: handleCancelCooking_def)

lemma no_active_after_closing:
  assumes one: "oneActivePerPair ss"
    and found: "find (activeFor rid uid) ss = Some session"
    and st: "st \<noteq> Active"
  shows "find (activeFor rid uid)
           (map (\<lambda>s. if s_id s = s_id session then s\<lparr>status := st\<rparr> else s) ss) = None"
proof -
  from found have session: "session \<in> set ss" "activeFor rid uid session"
    using find_Some_set by fastforce+
  from one have inj: "inj_on (\<lambda>s. (recipeId s, s_userId s))
      (set (filter (\<lambda>s. status s = Active) ss))"
    by (simp add: oneActivePerPair_def distinct_map)
  have "\<not> activeFor rid uid (if s_id s = s_id session then s\<lparr>status := st\<rparr> else s)"
    if s: "s \<in> set ss" for s
  proof (cases "s_id s = s_id session")
    case True
    with st show ?thesis by (simp add: activeFor_def)
  next
    case False
    have "\<not> activeFor rid uid s"
    proof
      assume a: "activeFor rid uid s"
      with session s have "s \<in> set (filter (\<lambda>s. status s = Active) ss)"
        "session \<in> set (filter (\<lambda>s. status s = Active) ss)"
        "(recipeId s, s_userId s) = (recipeId session, s_userId session)"
        by (auto simp: activeFor_def)
      with inj have "s = session" by (auto dest: inj_onD)
      with False show False by simp
    qed
    with False show ?thesis by simp
  qed
  then have "\<forall>x \<in> set (map (\<lambda>s. if s_id s = s_id session then s\<lparr>status := st\<rparr> else s) ss).
      \<not> activeFor rid uid x"
    unfolding set_map by blast
  then show ?thesis by (simp only: find_None_set)
qed

text \<open>
  C5. When the current user has an active session for the selected recipe, the recipe
  is stored and a user is logged in, completing computes the scaling factor
  \<open>servingSize / servings\<close> (with \<open>servings\<close> other than zero, where the division of
  the model is the one of the code), runs the deduction for each ingredient of the
  recipe in turn with the scaled quantity, each on the inventory the previous one
  returned, marks that session completed and adds one to the cook count of the recipe.
  When no session is active for the pair, completing and cancelling leave recipes,
  inventory and sessions as they are; that is the case after the completion when the
  session was the only active one for the pair, so that a second completion or a
  cancellation changes nothing.
\<close>

theorem complete_deducts_and_counts_once:
  assumes "find (activeFor (selectedRecipeId d) (currentUserId d)) (cookingSessions d)
             = Some session"
    and "find (\<lambda>r. Some (r_id r) = selectedRecipeId d) (recipes d) = Some recipe"
    and "currentUserId d = Some uid" and "uid \<noteq> []"
    and "servings recipe \<noteq> 0"
  shows
    "inventory (handleCompleteCooking d) =
       foldl (\<lambda>lots ing.
                res_updatedInventory
                  (deductFromInventory (ri_ingredientId ing) (ri_measurementId ing)
                     (ri_quantity ing * (servingSize session / servings recipe))
                     lots (measurements d) uid))
         (inventory d) (ingredients recipe)
     \<and> cookingSessions (handleCompleteCooking d) =
         map (\<lambda>s. if s_id s = s_id session then s\<lparr>status := Completed\<rparr> else s)
           (cookingSessions d)
     \<and> session\<lparr>status := Completed\<rparr> \<in> set (cookingSessions (handleCompleteCooking d))
     \<and> recipes (handleCompleteCooking d) =
         map (\<lambda>r. if Some (r_id r) = selectedRecipeId d
                   then r\<lparr>cookCount := cookCount r + 1\<rparr> else r) (recipes d)
     \<and> recipe\<lparr>cookCount := cookCount recipe + 1\<rparr> \<in> set (recipes (handleCompleteCooking d))
     \<and> (oneActivePerPair (cookingSessions d) \<longrightarrow>
          find (activeFor (selectedRecipeId d) (currentUserId d))
            (cookingSessions (handleCompleteCooking d)) = None
          \<and> handleCompleteCooking (handleCompleteCooking d) = handleCompleteCooking d
          \<and> handleCancelCooking (handleCompleteCooking d) = handleCompleteCooking d)
     \<and> (find (activeFor (selectedRecipeId d') (currentUserId d')) (cookingSessions d') = None \<longrightarrow>
          recipes (handleCompleteCooking d') = recipes d'
          \<and> inventory (handleCompleteCooking d') = inventory d'
          \<and> cookingSessions (handleCompleteCooking d') = cookingSessions d'
          \<and> recipes (handleCancelCooking d') = recipes d'
          \<and> inventory (handleCancelCooking d') = inventory d'
          \<and> cookingSessions (handleCancelCooking d') = cookingSessions d')"
proof -
  let ?d = "handleCompleteCooking d"
  note eq = handleCompleteCooking_active [OF assms(1-4)]
  have inv: "inventory ?d =
       foldl (\<lambda>lots ing.
                res_updatedInventory
                  (deductFromInventory (ri_ingredientId ing) (ri_measurementId ing)
                     (ri_quantity ing * (servingSize session / servings recipe))
                     lots (measurements d) uid))
         (inventory d) (ingredients recipe)"
    by (simp add: eq deductIngredients_foldl)
  have ses: "cookingSessions ?d =
         map (\<lambda>s. if s_id s = s_id session then s\<lparr>status := Completed\<rparr> else s)
           (cookingSessions d)"
    by (simp add: eq)
  have rec: "recipes ?d =
         map (\<lambda>r. if Some (r_id r) = selectedRecipeId d
                   then r\<lparr>cookCount := cookCount r + 1\<rparr> else r) (recipes d)"
    by (simp add: eq)
  from assms(1) have "session \<in> set (cookingSessions d)"
    using find_Some_set by fastforce
  then have ses_in: "session\<lparr>status := Completed\<rparr> \<in> set (cookingSessions ?d)"
    unfolding ses by force
  from assms(2) have "recipe \<in> set (recipes d)" "Some (r_id recipe) = selectedRecipeId d"
    using find_Some_set by fastforce+
  then have rec_in: "recipe\<lparr>cookCount := cookCount recipe + 1\<rparr> \<in> set (recipes ?d)"
    unfolding rec by force
  have sel: "selectedRecipeId ?d = selectedRecipeId d" "currentUserId ?d = currentUserId d"
    "currentView ?d = V_recipes"
    by (simp_all add: eq)
  have again: "find (activeFor (selectedRecipeId d) (currentUserId d)) (cookingSessions ?d) = None
      \<and> handleCompleteCooking ?d = ?d \<and> handleCancelCooking ?d = ?d"
    if one: "oneActivePerPair (cookingSessions d)"
  proof -
    have none: "find (activeFor (selectedRecipeId d) (currentUserId d)) (cookingSessions ?d) = None"
      unfolding ses by (rule no_active_after_closing [OF one assms(1)]) simp
    then have "find (activeFor (selectedRecipeId ?d) (currentUserId ?d)) (cookingSessions ?d) = None"
      by (simp only: sel)
    then have "handleCompleteCooking ?d = ?d\<lparr>currentView := V_recipes\<rparr>"
      "handleCancelCooking ?d = ?d\<lparr>currentView := V_recipes\<rparr>"
      by (rule handleCompleteCooking_inactive, rule handleCancelCooking_inactive)
    moreover have "?d\<lparr>currentView := V_recipes\<rparr> = ?d"
      using sel(3) by simp
    ultimately show ?thesis using none by simp
  qed
  have idle: "recipes (handleCompleteCooking d') = recipes d'
          \<and> inventory (handleCompleteCooking d') = inventory d'
          \<and> cookingSessions (handleCompleteCooking d') = cookingSessions d'
          \<and> recipes (handleCancelCooking d') = recipes d'
          \<and> inventory (handleCancelCooking d') = inventory d'
          \<and> cookingSessions (handleCancelCooking d') = cookingSessions d'"
    if "find (activeFor (selectedRecipeId d') (currentUserId d')) (cookingSessions d') = None"
    using that by (simp add: handleCompleteCooking_inactive handleCancelCooking_inactive)
  from inv ses ses_in rec rec_in again idle show ?thesis by blast
qed


text \<open>
  The witness is the end-to-end scenario: two cups for four servings, the session scaled
  to two servings, exactly one cup in stock. Completion empties the inventory, counts
  one cooking and closes the session; completing or cancelling again changes nothing.
\<close>

theorem complete_deducts_and_counts_once_witness:
  "inventory (handleCompleteCooking
       (handleUpdateCookingSession sessionA_halved
          (handleStartCooking ''a'' ''r'' exampleState))) = []
   \<and> recipes (handleCompleteCooking
       (handleUpdateCookingSession sessionA_halved
          (handleStartCooking ''a'' ''r'' exampleState))) = [flourRecipe\<lparr>cookCount := 1\<rparr>]
   \<and> cookingSessions (handleCompleteCooking
       (handleUpdateCookingSession sessionA_halved
          (handleStartCooking ''a'' ''r'' exampleState)))
       = [sessionA_halved\<lparr>status := Completed\<rparr>]
   \<and> handleCompleteCooking (handleCompleteCooking
       (handleUpdateCookingSession sessionA_halved
          (handleStartCooking ''a'' ''r'' exampleState)))
       = handleCompleteCooking
           (handleUpdateCookingSession sessionA_halved
              (handleStartCooking ''a'' ''r'' exampleState))
   \<and> handleCancelCooking (handleCompleteCooking
       (handleUpdateCookingSession sessionA_halved
          (handleStartCooking ''a'' ''r'' exampleState)))
       = handleCompleteCooking
           (handleUpdateCookingSession sessionA_halved
              (handleStartCooking ''a'' ''r'' exampleState))"
proof -
  let ?d = "handleUpdateCookingSession sessionA_halved
          (handleStartCooking ''a'' ''r'' exampleState)"
  have act: "activeFor (Some ''r'') (Some ''u'') sessionA_halved"
    by (simp add: sessionA_halved_def sessionA_def activeFor_def)
  have h1: "find (activeFor (selectedRecipeId ?d) (currentUserId ?d)) (cookingSessions ?d)
      = Some sessionA_halved"
    unfolding example_updated by (simp add: exampleState_def act)
  have h2: "find (\<lambda>r. Some (r_id r) = selectedRecipeId ?d) (recipes ?d) = Some flourRecipe"
    unfolding example_updated by (simp add: exampleState_def flourRecipe_def)
  have h3: "currentUserId ?d = Some ''u''"
    unfolding example_updated by (simp add: exampleState_def)
  have h4: "''u'' \<noteq> []" by simp
  have h5: "servings flourRecipe \<noteq> 0" by (simp add: flourRecipe_def)
  have one: "oneActivePerPair (cookingSessions ?d)"
    unfolding example_updated by (simp add: oneActivePerPair_def)
  note T = complete_deducts_and_counts_once [OF h1 h2 h3 h4 h5]
  have k: "servingSize sessionA_halved / servings flourRecipe = 1 / 2"
    by (simp add: sessionA_halved_def flourRecipe_def)
  have "inventory (handleCompleteCooking ?d) =
      foldl (\<lambda>lots ing.
                res_updatedInventory
                  (deductFromInventory (ri_ingredientId ing) (ri_measurementId ing)
                     (ri_quantity ing * (1 / 2)) lots (measurements ?d) ''u''))
         (inventory ?d) (ingredients flourRecipe)"
    using T [THEN conjunct1] unfolding k .
  then have w1: "inventory (handleCompleteCooking ?d) = []"
    unfolding example_updated
    by (simp add: exampleState_def flourRecipe_def example_deduct_one_cup)
  have "recipes (handleCompleteCooking ?d) =
      map (\<lambda>r. if Some (r_id r) = selectedRecipeId ?d
                   then r\<lparr>cookCount := cookCount r + 1\<rparr> else r) (recipes ?d)"
    using T by blast
  then have w2: "recipes (handleCompleteCooking ?d) = [flourRecipe\<lparr>cookCount := 1\<rparr>]"
    unfolding example_updated by (simp add: exampleState_def flourRecipe_def)
  have "cookingSessions (handleCompleteCooking ?d) =
      map (\<lambda>s. if s_id s = s_id sessionA_halved then s\<lparr>status := Completed\<rparr> else s)
           (cookingSessions ?d)"
    using T by blast
  then have w3: "cookingSessions (handleCompleteCooking ?d) = [sessionA_halved\<lparr>status := Completed\<rparr>]"
    unfolding example_updated by simp
  from T one have w4: "handleCompleteCooking (handleCompleteCooking ?d) = handleCompleteCooking ?d"
    and w5: "handleCancelCooking (handleCompleteCooking ?d) = handleCompleteCooking ?d"
    by blast+
  show ?thesis by (rule conjI [OF w1 conjI [OF w2 conjI [OF w3 conjI [OF w4 w5]]]])
qed

end
